theory Spec2Isabelle
  imports Main "HOL-Library.AList" "HOL-Library.Word"
begin

section \<open>Errors\<close>

text \<open>
  Every \<^verbatim>\<open>LOG(FATAL)\<close>, \<^verbatim>\<open>ICHECK\<close> and \<^verbatim>\<open>CHECK\<close> of the source throws; the model returns the
  failure as a value. The constructors are named after the error taxonomy of the
  specification and stand for the messages of the source:
  \<^item> \<open>DuplicateNameError\<close>: "Variable already exists: " (\<^verbatim>\<open>AddVars\<close>);
  \<^item> \<open>EmptyScopeStackError\<close>: \<^verbatim>\<open>scopes.back()\<close> on an empty array, \<^verbatim>\<open>CHECK(!scopes.empty())\<close>;
  \<^item> \<open>InvalidScopeError\<close>: "Invalid scope: ";
  \<^item> \<open>ScopeDisciplineError\<close>: the \<^verbatim>\<open>ICHECK\<close>s on \<^verbatim>\<open>DataflowVarNode\<close> in \<^verbatim>\<open>Emit\<close>,
    \<^verbatim>\<open>EmitOutput\<close> and \<^verbatim>\<open>EmitMatchShape\<close>;
  \<^item> \<open>UnboundVariableError\<close>: "Cannot find binding for ";
  \<^item> \<open>NoModuleScopeError\<close>: "No IRModuleScope in context";
  \<^item> \<open>TypeMismatchError\<close>: "TypeError: Invalid type of value, must be of DynTensorType or
    ShapeType";
  \<^item> \<open>TupleFieldTypeError\<close>: "TypeError: Invalid type as the tuple field of TupleGetItem";
  \<^item> \<open>IndexOutOfBoundsError\<close>: \<^verbatim>\<open>Array::operator[]\<close> outside the array;
  \<^item> \<open>CheckedTypeUndefinedError\<close>: \<^verbatim>\<open>checked_type()\<close> on an expression whose type is not set;
  \<^item> \<open>IntOverflow\<close>: the counter \<^verbatim>\<open>int i\<close> of \<^verbatim>\<open>GetUniqueName\<close> incremented past its largest
    value (undefined behaviour in the source).
\<close>

datatype error =
    DuplicateNameError
  | EmptyScopeStackError
  | InvalidScopeError
  | ScopeDisciplineError
  | UnboundVariableError
  | NoModuleScopeError
  | TypeMismatchError
  | TupleFieldTypeError
  | IndexOutOfBoundsError
  | CheckedTypeUndefinedError
  | IntOverflow

section \<open>Objects and expressions\<close>

text \<open>
  Objects that the source compares by pointer (\<^verbatim>\<open>Id\<close>, \<^verbatim>\<open>GlobalVar\<close>, keys of a \<^verbatim>\<open>Map\<close>) carry the
  address at which they were allocated. The allocator is a counter, the next free address,
  passed to and returned by every operation that creates such an object.
\<close>

type_synonym heap = nat

datatype ObjectRef = ObjectRef nat

datatype Id = Id (id_addr: nat) (id_name_hint: string)

datatype GlobalVar = GlobalVar (gv_addr: nat) (gv_name_hint: string)

text \<open>
  Modelled from the spec: \<^verbatim>\<open>StructuralEqual\<close> and \<^verbatim>\<open>StructuralHash\<close>, the equality and hash of the
  keys of \<^verbatim>\<open>structural_map\<close>, are declared outside the source files at hand. The
  specification has them compare the content of two functions recursively and ignore the
  identity of the objects. A function object is an address and a content, and two functions
  are structurally equal when their contents are equal.
\<close>

datatype BaseFunc = BaseFunc (func_addr: nat) (func_content: string)

definition StructuralEqual :: "BaseFunc \<Rightarrow> BaseFunc \<Rightarrow> bool" where
  "StructuralEqual f g = (func_content f = func_content g)"

type_synonym DataType = string

datatype PrimExpr = IntImm int | SizeVar string | OtherPrimExpr string

text \<open>The \<^verbatim>\<open>int\<close> fields of the source (the rank of a tensor type, the index of a
  projection) are 32-bit words, read as signed.\<close>

datatype Type =
    ShapeType
  | DynTensorType (rank: "32 word") (dtype: DataType)
  | TupleType (type_fields: "Type list")
  | OtherType string

datatype VarKind = VarNode | DataflowVarNode

text \<open>
  Every expression node has the two mutable fields \<^verbatim>\<open>shape_\<close> and \<^verbatim>\<open>checked_type_\<close>; an
  undefined one is \<open>None\<close>. A \<^verbatim>\<open>Var\<close> is an expression of class \<^verbatim>\<open>VarNode\<close> or of its subclass
  \<^verbatim>\<open>DataflowVarNode\<close>.
\<close>

datatype Var =
    Var (var_kind: VarKind) (vid: Id) (var_shape: "Expr option") (var_checked_type: "Type option")
and Expr =
    VarExpr Var
  | Expr (node: ExprNode) (expr_shape: "Expr option") (expr_checked_type: "Type option")
and ExprNode =
    OpNode string
  | CallNode Expr "Expr list"
  | TupleNode "Expr list"
  | TupleGetItemNode Expr "32 word"
  | ShapeExprNode "PrimExpr list"
  | OtherNode string

datatype VarBinding = VarBinding (binding_var: Var) (binding_value: Expr)

datatype MatchShape =
  MatchShape (match_value: Expr) (match_pattern: "PrimExpr list") (match_var: Var)

datatype Binding = VarBindingNode VarBinding | MatchShapeNode MatchShape

section \<open>Scopes (scope.h)\<close>

type_synonym NameTable = "(string \<times> ObjectRef) list"

text \<open>
  A \<^verbatim>\<open>Callback\<close> wraps a closure without arguments. Its effect is a change of the state
  outside the manager, of type \<open>'w\<close>; the closure may read the name table of the manager as
  it stands when the callback runs.
\<close>

type_synonym 'w Callback = "NameTable \<Rightarrow> 'w \<Rightarrow> 'w"

record IRModuleScopeFields =
  func_map :: "(GlobalVar \<times> BaseFunc) list"
  structural_map :: "(BaseFunc \<times> GlobalVar) list"

datatype ScopeNode =
    BaseScopeNode
  | DataflowScopeNode "Binding list"
  | NonDataflowScopeNode "Binding list"
  | IRModuleScopeNode IRModuleScopeFields

record 'w BaseScope =
  vars :: "string list"
  callbacks :: "'w Callback list"
  derived :: ScopeNode

definition new_scope :: "ScopeNode \<Rightarrow> 'w BaseScope" where
  "new_scope d = \<lparr>vars = [], callbacks = [], derived = d\<rparr>"

definition BaseScope_new :: "'w BaseScope" where
  "BaseScope_new = new_scope BaseScopeNode"

definition DataflowScope_new :: "'w BaseScope" where
  "DataflowScope_new = new_scope (DataflowScopeNode [])"

definition NonDataflowScope_new :: "'w BaseScope" where
  "NonDataflowScope_new = new_scope (NonDataflowScopeNode [])"

definition empty_module :: IRModuleScopeFields where
  "empty_module = \<lparr>func_map = [], structural_map = []\<rparr>"

definition IRModuleScope_new :: "'w BaseScope" where
  "IRModuleScope_new = new_scope (IRModuleScopeNode empty_module)"

definition AddVar :: "string \<Rightarrow> 'w BaseScope \<Rightarrow> 'w BaseScope" where
  "AddVar var scope = scope\<lparr>vars := vars scope @ [var]\<rparr>"

definition AddCallback :: "'w Callback \<Rightarrow> 'w BaseScope \<Rightarrow> 'w BaseScope" where
  "AddCallback cb scope = scope\<lparr>callbacks := callbacks scope @ [cb]\<rparr>"

record 'w ScopeManagerNode =
  scopes :: "'w BaseScope list"
  name2value :: NameTable

subsection \<open>GetUniqueName\<close>

definition digit :: "nat \<Rightarrow> char" where
  "digit d = ''0123456789'' ! d"

text \<open>\<^verbatim>\<open>std::to_string\<close> on a number that is not negative.\<close>

fun to_string :: "nat \<Rightarrow> string" where
  "to_string n = (if n < 10 then [digit n] else to_string (n div 10) @ [digit (n mod 10)])"

declare to_string.simps [simp del]

definition INT_MAX :: nat where
  "INT_MAX = 2147483647"

text \<open>The loop \<^verbatim>\<open>for (int i = 0;; i++)\<close>, entered at \<open>i\<close>.\<close>

function GetUniqueName_from :: "NameTable \<Rightarrow> string \<Rightarrow> nat \<Rightarrow> error + string" where
  "GetUniqueName_from n2v prefix i =
     (if map_of n2v (prefix @ to_string i) = None then Inr (prefix @ to_string i)
      else if INT_MAX \<le> i then Inl IntOverflow
      else GetUniqueName_from n2v prefix (i + 1))"
  by pat_completeness auto
termination
  by (relation "measure (\<lambda>(n2v, prefix, i). INT_MAX - i)") auto

declare GetUniqueName_from.simps [simp del]

text \<open>The method is \<^verbatim>\<open>const\<close>: the manager is read, not changed.\<close>

definition GetUniqueName :: "('w, 'z) ScopeManagerNode_scheme \<Rightarrow> string \<Rightarrow> error + string" where
  "GetUniqueName self prefix = GetUniqueName_from (name2value self) prefix 0"

subsection \<open>PushScope, PopScope, AddVars\<close>

definition PushScope ::
  "'w BaseScope \<Rightarrow> ('w, 'z) ScopeManagerNode_scheme
     \<Rightarrow> 'w BaseScope \<times> ('w, 'z) ScopeManagerNode_scheme" where
  "PushScope scope self = (scope, self\<lparr>scopes := scopes self @ [scope]\<rparr>)"

fun run_callbacks :: "'w Callback list \<Rightarrow> NameTable \<Rightarrow> 'w \<Rightarrow> 'w" where
  "run_callbacks [] n2v w = w"
| "run_callbacks (cb # cbs) n2v w = run_callbacks cbs n2v (cb n2v w)"

fun erase_names :: "string list \<Rightarrow> NameTable \<Rightarrow> NameTable" where
  "erase_names [] n2v = n2v"
| "erase_names (name # names) n2v = erase_names names (AList.delete name n2v)"

text \<open>
  \<^verbatim>\<open>PopScope\<close>, statement by statement as in the source. Its first statement reads
  \<^verbatim>\<open>scopes.back()\<close>; on an empty array that accessor fails, which is the
  \<open>EmptyScopeStackError\<close> of the specification. The same holds of every other
  \<^verbatim>\<open>scopes.back()\<close> below.
\<close>

definition PopScope ::
  "('w, 'z) ScopeManagerNode_scheme \<Rightarrow> 'w
     \<Rightarrow> error + ('w BaseScope \<times> ('w, 'z) ScopeManagerNode_scheme \<times> 'w)" where
  "PopScope self w =
     (if scopes self = [] then Inl EmptyScopeStackError
      else
        let scope = last (scopes self);
            self1 = self\<lparr>scopes := butlast (scopes self)\<rparr>;
            w1 = run_callbacks (callbacks scope) (name2value self1) w;
            self2 = self1\<lparr>name2value := erase_names (vars scope) (name2value self1)\<rparr>
        in Inr (scope, self2, w1))"

text \<open>
  \<^verbatim>\<open>AddVars(name, value, scope)\<close>. The argument \<^verbatim>\<open>scope\<close> is a reference to a scope object, and
  \<^verbatim>\<open>scope->AddVar(name)\<close> changes that object wherever it is held. The stack of the model
  holds the scopes by value, so the reference is given by the positions \<open>ks\<close> at which the
  object sits in the stack: one position for an object that has been pushed once, several
  for an object that has been pushed more than once, none for an object that is not in the
  stack. The name is appended once to the object, that is, at each of these positions.
\<close>

definition AddVar_at :: "nat list \<Rightarrow> string \<Rightarrow> 'w BaseScope list \<Rightarrow> 'w BaseScope list" where
  "AddVar_at ks name scs =
     map (\<lambda>i. if i \<in> set ks then AddVar name (scs ! i) else scs ! i) [0..<length scs]"

definition AddVars ::
  "string \<Rightarrow> ObjectRef \<Rightarrow> nat list \<Rightarrow> ('w, 'z) ScopeManagerNode_scheme
     \<Rightarrow> error + ('w, 'z) ScopeManagerNode_scheme" where
  "AddVars name val ks self =
     (if map_of (name2value self) name \<noteq> None then Inl DuplicateNameError
      else Inr (self\<lparr>name2value := AList.update name val (name2value self),
                     scopes := AddVar_at ks name (scopes self)\<rparr>))"

subsection \<open>GetScope\<close>

text \<open>
  \<^verbatim>\<open>GetScope<TScope>\<close> walks the stack from the top, \<^verbatim>\<open>for (int i = n - 1; i >= 0; --i)\<close>, and
  returns the first scope of class \<^verbatim>\<open>TScope\<close>. The class test is the predicate \<open>is_kind\<close>; the
  returned reference is the position of the scope in the stack.
\<close>

fun GetScope_from :: "(ScopeNode \<Rightarrow> bool) \<Rightarrow> 'w BaseScope list \<Rightarrow> nat \<Rightarrow> nat option" where
  "GetScope_from is_kind scs 0 = None"
| "GetScope_from is_kind scs (Suc i) =
     (if is_kind (derived (scs ! i)) then Some i else GetScope_from is_kind scs i)"

definition GetScope ::
  "(ScopeNode \<Rightarrow> bool) \<Rightarrow> ('w, 'z) ScopeManagerNode_scheme \<Rightarrow> nat option" where
  "GetScope is_kind self = GetScope_from is_kind (scopes self) (length (scopes self))"

fun is_IRModuleScope :: "ScopeNode \<Rightarrow> bool" where
  "is_IRModuleScope (IRModuleScopeNode flds) = True"
| "is_IRModuleScope other = False"

subsection \<open>IRModuleScopeNode::Add\<close>

text \<open>\<^verbatim>\<open>structural_map.find(func)\<close>: the keys are compared with \<^verbatim>\<open>StructuralEqual\<close>.\<close>

fun structural_find :: "(BaseFunc \<times> GlobalVar) list \<Rightarrow> BaseFunc \<Rightarrow> GlobalVar option" where
  "structural_find [] func = None"
| "structural_find ((key, gv) # rest) func =
     (if StructuralEqual key func then Some gv else structural_find rest func)"

definition Add ::
  "heap \<Rightarrow> string \<Rightarrow> BaseFunc \<Rightarrow> IRModuleScopeFields
     \<Rightarrow> GlobalVar \<times> IRModuleScopeFields \<times> heap" where
  "Add h name func self =
     (case structural_find (structural_map self) func of
        Some gv \<Rightarrow> (gv, self, h)
      | None \<Rightarrow>
          let gv = GlobalVar h name
          in (gv,
              self\<lparr>structural_map := structural_map self @ [(func, gv)],
                   func_map := AList.update gv func (func_map self)\<rparr>,
              Suc h))"

text \<open>
  A symbol table as the code builds it: the empty table of the constructor, then a sequence
  of \<^verbatim>\<open>Add\<close> calls. Before each call, \<open>k\<close> objects of other classes are allocated.
\<close>

fun Add_all ::
  "(nat \<times> string \<times> BaseFunc) list \<Rightarrow> IRModuleScopeFields \<times> heap
     \<Rightarrow> IRModuleScopeFields \<times> heap" where
  "Add_all [] (self, h) = (self, h)"
| "Add_all ((k, name, func) # rest) (self, h) =
     (case Add (h + k) name func self of (gv, self', h') \<Rightarrow> Add_all rest (self', h'))"

text \<open>The number of entries of the symbol table whose function is structurally equal
  to \<open>func\<close>, and what holds of every table that \<^verbatim>\<open>Add\<close> builds with the allocator at \<open>h\<close>:
  the two maps mirror each other, the symbols lie below \<open>h\<close>, no two keys of the
  structural map are structurally equal and no two of them have the same symbol.\<close>

definition module_inv :: "heap \<Rightarrow> IRModuleScopeFields \<Rightarrow> bool" where
  "module_inv h self =
     (func_map self = map (\<lambda>(f, gv). (gv, f)) (structural_map self)
      \<and> (\<forall>(f, gv) \<in> set (structural_map self). gv_addr gv < h)
      \<and> distinct (map (\<lambda>(f, gv). func_content f) (structural_map self))
      \<and> distinct (map snd (structural_map self)))"


definition entries_for :: "BaseFunc \<Rightarrow> IRModuleScopeFields \<Rightarrow> nat" where
  "entries_for func self =
     length (filter (\<lambda>(gv, f). StructuralEqual f func) (func_map self))"

section \<open>The builder (ir_builder.cc)\<close>

record 'w IRBuilderNode = "'w ScopeManagerNode" +
  id2bind :: "(Id \<times> Expr) list"

datatype BindingBlock = BindingBlock "Binding list" | DataflowBlock "Binding list"

text \<open>
  The operator attribute registry, \<^verbatim>\<open>Op::GetAttrMap<FInferShape>("FInferShape")\<close> and
  \<^verbatim>\<open>Op::GetAttrMap<FInferType>("FInferType")\<close>, is a parameter: for the name of an operator, the
  registered function if there is one. The diagnostic context handed to the function is a
  thread-local default and is left out.
\<close>

record OpRegistry =
  FInferShape :: "string \<Rightarrow> (Expr \<Rightarrow> Expr option) option"
  FInferType :: "string \<Rightarrow> (Expr \<Rightarrow> Type option) option"

fun shape_of :: "Expr \<Rightarrow> Expr option" where
  "shape_of (VarExpr v) = var_shape v"
| "shape_of (Expr n s t) = s"

fun checked_type_of :: "Expr \<Rightarrow> Type option" where
  "checked_type_of (VarExpr v) = var_checked_type v"
| "checked_type_of (Expr n s t) = t"

text \<open>The operator of a call, when \<^verbatim>\<open>call->op.as<OpNode>()\<close> is not null.\<close>

fun call_op_name :: "Expr \<Rightarrow> string option" where
  "call_op_name (Expr (CallNode (Expr (OpNode name) os ot) args) s t) = Some name"
| "call_op_name other = None"

definition InferShape :: "OpRegistry \<Rightarrow> Expr \<Rightarrow> Expr option" where
  "InferShape reg call =
     (case shape_of call of
        Some s \<Rightarrow> Some s
      | None \<Rightarrow>
          (case call_op_name call of
             Some name \<Rightarrow>
               (case FInferShape reg name of Some f \<Rightarrow> f call | None \<Rightarrow> None)
           | None \<Rightarrow> None))"

definition InferType :: "OpRegistry \<Rightarrow> Expr \<Rightarrow> Type option" where
  "InferType reg call =
     (case checked_type_of call of
        Some t \<Rightarrow> Some t
      | None \<Rightarrow>
          (case call_op_name call of
             Some name \<Rightarrow>
               (case FInferType reg name of Some f \<Rightarrow> f call | None \<Rightarrow> None)
           | None \<Rightarrow> None))"

fun is_DataflowScope :: "ScopeNode \<Rightarrow> bool" where
  "is_DataflowScope (DataflowScopeNode bs) = True"
| "is_DataflowScope other = False"

fun is_NonDataflowScope :: "ScopeNode \<Rightarrow> bool" where
  "is_NonDataflowScope (NonDataflowScopeNode bs) = True"
| "is_NonDataflowScope other = False"

definition CurrentBlockIsDataFlow :: "'w IRBuilderNode \<Rightarrow> error + bool" where
  "CurrentBlockIsDataFlow self =
     (if scopes self = [] then Inl EmptyScopeStackError
      else Inr (is_DataflowScope (derived (last (scopes self)))))"

definition LookupBinding :: "'w IRBuilderNode \<Rightarrow> Id \<Rightarrow> error + Expr" where
  "LookupBinding self i =
     (case map_of (id2bind self) i of
        None \<Rightarrow> Inl UnboundVariableError
      | Some e \<Rightarrow> Inr e)"

definition BeginDataflowBlock :: "'w IRBuilderNode \<Rightarrow> 'w IRBuilderNode" where
  "BeginDataflowBlock self = self\<lparr>scopes := scopes self @ [DataflowScope_new]\<rparr>"

definition BeginBindingBlock :: "'w IRBuilderNode \<Rightarrow> 'w IRBuilderNode" where
  "BeginBindingBlock self = self\<lparr>scopes := scopes self @ [NonDataflowScope_new]\<rparr>"

text \<open>
  \<^verbatim>\<open>EndBlock\<close> pops first and looks at the class of the popped scope afterwards: when it
  fails on a scope that holds no bindings, the scope is gone from the stack all the same.
\<close>

definition EndBlock ::
  "'w IRBuilderNode \<Rightarrow> 'w \<Rightarrow> (error + BindingBlock) \<times> 'w IRBuilderNode \<times> 'w" where
  "EndBlock self w =
     (case PopScope self w of
        Inl e \<Rightarrow> (Inl e, self, w)
      | Inr (scope, self', w') \<Rightarrow>
          (case derived scope of
             DataflowScopeNode bs \<Rightarrow> (Inr (DataflowBlock bs), self', w')
           | NonDataflowScopeNode bs \<Rightarrow> (Inr (BindingBlock bs), self', w')
           | BaseScopeNode \<Rightarrow> (Inl InvalidScopeError, self', w')
           | IRModuleScopeNode flds \<Rightarrow> (Inl InvalidScopeError, self', w')))"

definition AddFuncToContext ::
  "BaseFunc \<Rightarrow> string \<Rightarrow> 'w IRBuilderNode \<Rightarrow> heap
     \<Rightarrow> (error + GlobalVar) \<times> 'w IRBuilderNode \<times> heap" where
  "AddFuncToContext func func_name_hint self h =
     (case GetScope is_IRModuleScope self of
        None \<Rightarrow> (Inl NoModuleScopeError, self, h)
      | Some i \<Rightarrow>
          (case derived (scopes self ! i) of
             IRModuleScopeNode flds \<Rightarrow>
               (case Add h func_name_hint func flds of
                  (gv, flds', h') \<Rightarrow>
                    (Inr gv,
                     self\<lparr>scopes :=
                       (scopes self)[i := (scopes self ! i)\<lparr>derived := IRModuleScopeNode flds'\<rparr>]\<rparr>,
                     h'))
           | other \<Rightarrow> (Inl NoModuleScopeError, self, h)))"

subsection \<open>Emitting bindings\<close>

text \<open>
  \<^verbatim>\<open>n->bindings.push_back(binding)\<close> on the scope object at the top of the stack. The builder
  pushes the scopes that \<^verbatim>\<open>BeginDataflowBlock\<close> and \<^verbatim>\<open>BeginBindingBlock\<close> have just constructed,
  so the object at the top sits at no other position of the stack.
\<close>

fun push_back_binding :: "Binding \<Rightarrow> ScopeNode \<Rightarrow> ScopeNode" where
  "push_back_binding b (DataflowScopeNode bs) = DataflowScopeNode (bs @ [b])"
| "push_back_binding b (NonDataflowScopeNode bs) = NonDataflowScopeNode (bs @ [b])"
| "push_back_binding b other = other"

definition push_binding :: "Binding \<Rightarrow> 'w IRBuilderNode \<Rightarrow> 'w IRBuilderNode" where
  "push_binding b self =
     self\<lparr>scopes := butlast (scopes self) @
       [(last (scopes self))\<lparr>derived := push_back_binding b (derived (last (scopes self)))\<rparr>]\<rparr>"

text \<open>\<^verbatim>\<open>this->id2bind.Set(binding->var->vid, binding->value); return binding->var;\<close>\<close>

definition record_binding ::
  "VarBinding \<Rightarrow> 'w IRBuilderNode \<Rightarrow> (error + Var) \<times> 'w IRBuilderNode" where
  "record_binding binding self =
     (Inr (binding_var binding),
      self\<lparr>id2bind :=
        AList.update (vid (binding_var binding)) (binding_value binding) (id2bind self)\<rparr>)"

text \<open>
  The emitting operations return the result, a \<^verbatim>\<open>Var\<close> or the failure, together with the
  builder as the call leaves it: a failure is an exception, the builder lives on.
\<close>

definition Emit :: "VarBinding \<Rightarrow> 'w IRBuilderNode \<Rightarrow> (error + Var) \<times> 'w IRBuilderNode" where
  "Emit binding self =
     (if scopes self = [] then (Inl EmptyScopeStackError, self)
      else case derived (last (scopes self)) of
        DataflowScopeNode bs \<Rightarrow>
          if var_kind (binding_var binding) = DataflowVarNode
          then record_binding binding (push_binding (VarBindingNode binding) self)
          else (Inl ScopeDisciplineError, self)
      | NonDataflowScopeNode bs \<Rightarrow>
          record_binding binding (push_binding (VarBindingNode binding) self)
      | BaseScopeNode \<Rightarrow> (Inl InvalidScopeError, self)
      | IRModuleScopeNode flds \<Rightarrow> (Inl InvalidScopeError, self))"

definition EmitOutput ::
  "VarBinding \<Rightarrow> 'w IRBuilderNode \<Rightarrow> (error + Var) \<times> 'w IRBuilderNode" where
  "EmitOutput binding self =
     (if scopes self = [] then (Inl EmptyScopeStackError, self)
      else case derived (last (scopes self)) of
        DataflowScopeNode bs \<Rightarrow>
          if var_kind (binding_var binding) = DataflowVarNode
          then record_binding binding (push_binding (VarBindingNode binding) self)
          else (Inl ScopeDisciplineError, self)
      | NonDataflowScopeNode bs \<Rightarrow> (Inl InvalidScopeError, self)
      | BaseScopeNode \<Rightarrow> (Inl InvalidScopeError, self)
      | IRModuleScopeNode flds \<Rightarrow> (Inl InvalidScopeError, self))"

text \<open>\<^verbatim>\<open>EmitMatchShape\<close> does not touch \<^verbatim>\<open>id2bind\<close>: the line is commented out in the source.\<close>

definition EmitMatchShape ::
  "MatchShape \<Rightarrow> 'w IRBuilderNode \<Rightarrow> (error + Var) \<times> 'w IRBuilderNode" where
  "EmitMatchShape binding self =
     (if scopes self = [] then (Inl EmptyScopeStackError, self)
      else case derived (last (scopes self)) of
        DataflowScopeNode bs \<Rightarrow>
          if var_kind (match_var binding) = DataflowVarNode
          then (Inr (match_var binding), push_binding (MatchShapeNode binding) self)
          else (Inl ScopeDisciplineError, self)
      | NonDataflowScopeNode bs \<Rightarrow>
          if var_kind (match_var binding) \<noteq> DataflowVarNode
          then (Inr (match_var binding), push_binding (MatchShapeNode binding) self)
          else (Inl ScopeDisciplineError, self)
      | BaseScopeNode \<Rightarrow> (Inl InvalidScopeError, self)
      | IRModuleScopeNode flds \<Rightarrow> (Inl InvalidScopeError, self))"

subsection \<open>Creating and emitting bindings\<close>

definition value_or :: "string option \<Rightarrow> string \<Rightarrow> string" where
  "value_or name_hint dflt = (case name_hint of Some name \<Rightarrow> name | None \<Rightarrow> dflt)"

text \<open>
  \<^verbatim>\<open>CreateScopedVar\<close> allocates one \<^verbatim>\<open>Id\<close>; the shape and the type annotation handed to the
  constructor are \<^verbatim>\<open>NullOpt\<close>, so both fields of the new \<^verbatim>\<open>Var\<close> are undefined.
\<close>

definition CreateScopedVar ::
  "'w IRBuilderNode \<Rightarrow> string option \<Rightarrow> heap \<Rightarrow> (error + Var) \<times> heap" where
  "CreateScopedVar self name_hint h =
     (if scopes self = [] then (Inl EmptyScopeStackError, h)
      else case derived (last (scopes self)) of
        DataflowScopeNode bs \<Rightarrow>
          (case GetUniqueName self (value_or name_hint ''lv'') of
             Inl e \<Rightarrow> (Inl e, h)
           | Inr name \<Rightarrow> (Inr (Var DataflowVarNode (Id h name) None None), Suc h))
      | NonDataflowScopeNode bs \<Rightarrow>
          (case GetUniqueName self (value_or name_hint ''gv'') of
             Inl e \<Rightarrow> (Inl e, h)
           | Inr name \<Rightarrow> (Inr (Var VarNode (Id h name) None None), Suc h))
      | BaseScopeNode \<Rightarrow> (Inl InvalidScopeError, h)
      | IRModuleScopeNode flds \<Rightarrow> (Inl InvalidScopeError, h))"

text \<open>
  \<^verbatim>\<open>fields[i]\<close> with \<^verbatim>\<open>int i\<close>. \<^verbatim>\<open>Array::operator[]\<close> is declared outside the source files at
  hand; it is taken to check the index and to fail outside the array.
\<close>

definition array_get :: "'a list \<Rightarrow> 32 word \<Rightarrow> error + 'a" where
  "array_get flds i =
     (if 0 \<le> sint i \<and> sint i < int (length flds) then Inr (flds ! nat (sint i))
      else Inl IndexOutOfBoundsError)"

text \<open>The two steps of the \<^verbatim>\<open>TupleGetItemNode\<close> branch of \<^verbatim>\<open>CreateVarBinding\<close>.\<close>

definition project_shape :: "Var \<Rightarrow> 32 word \<Rightarrow> Var \<Rightarrow> error + Var" where
  "project_shape rhs_var i var =
     (case var_shape rhs_var of
        Some (Expr (TupleNode flds) s t) \<Rightarrow>
          (case array_get flds i of
             Inl e \<Rightarrow> Inl e
           | Inr field \<Rightarrow>
               Inr (Var (var_kind var) (vid var) (Some field) (var_checked_type var)))
      | other \<Rightarrow> Inr var)"

definition project_type :: "Var \<Rightarrow> 32 word \<Rightarrow> Var \<Rightarrow> error + Var" where
  "project_type rhs_var i var =
     (case var_checked_type rhs_var of
        Some (TupleType flds) \<Rightarrow>
          (case array_get flds i of
             Inl e \<Rightarrow> Inl e
           | Inr field \<Rightarrow> Inr (Var (var_kind var) (vid var) (var_shape var) (Some field)))
      | other \<Rightarrow> Inr var)"

text \<open>
  \<^verbatim>\<open>CreateVarBinding\<close>. In the \<^verbatim>\<open>CallNode\<close> branch the source copies the call into \<^verbatim>\<open>new_call\<close>
  and stores the inferred shape and type in the copy and in the variable; the binding it
  returns, \<^verbatim>\<open>VarBinding(var, expr)\<close>, holds the expression it was given, not the copy.
\<close>

definition CreateVarBinding :: "OpRegistry \<Rightarrow> Var \<Rightarrow> Expr \<Rightarrow> error + VarBinding" where
  "CreateVarBinding reg var expr =
     (case expr of
        VarExpr rhs_var \<Rightarrow>
          Inr (VarBinding
                 (Var (var_kind var) (vid var) (var_shape rhs_var) (var_checked_type rhs_var))
                 expr)
      | Expr n s t \<Rightarrow>
          (case n of
             CallNode op args \<Rightarrow>
               let new_call = Expr (CallNode op args) (InferShape reg expr) (InferType reg expr);
                   var' = Var (var_kind var) (vid var)
                            (expr_shape new_call) (expr_checked_type new_call)
               in Inr (VarBinding var' expr)
           | TupleGetItemNode tuple i \<Rightarrow>
               (case tuple of
                  VarExpr rhs_var \<Rightarrow>
                    (case project_shape rhs_var i var of
                       Inl e \<Rightarrow> Inl e
                     | Inr var1 \<Rightarrow>
                         (case project_type rhs_var i var1 of
                            Inl e \<Rightarrow> Inl e
                          | Inr var2 \<Rightarrow> Inr (VarBinding var2 expr)))
                | Expr tn ts tt \<Rightarrow> Inl TupleFieldTypeError)
           | OpNode name \<Rightarrow> Inr (VarBinding var expr)
           | TupleNode flds \<Rightarrow> Inr (VarBinding var expr)
           | ShapeExprNode vals \<Rightarrow> Inr (VarBinding var expr)
           | OtherNode kind \<Rightarrow> Inr (VarBinding var expr)))"

definition Emit_expr ::
  "OpRegistry \<Rightarrow> Expr \<Rightarrow> string option \<Rightarrow> 'w IRBuilderNode \<Rightarrow> heap
     \<Rightarrow> ((error + Var) \<times> 'w IRBuilderNode) \<times> heap" where
  "Emit_expr reg expr name_hint self h =
     (case CreateScopedVar self name_hint h of
        (Inl e, h') \<Rightarrow> ((Inl e, self), h')
      | (Inr var, h') \<Rightarrow>
          (case CreateVarBinding reg var expr of
             Inl e \<Rightarrow> ((Inl e, self), h')
           | Inr binding \<Rightarrow> (Emit binding self, h')))"

text \<open>
  Modelled from the spec: the constructor \<^verbatim>\<open>ShapeExpr(pattern)\<close> is declared outside the source
  files at hand. The specification has the shape of the bound variable become the pattern:
  the node holds the dimensions of the pattern, and nothing else of it is read here.
\<close>

definition ShapeExpr :: "PrimExpr list \<Rightarrow> Expr" where
  "ShapeExpr vals = Expr (ShapeExprNode vals) None None"

text \<open>
  \<^verbatim>\<open>EmitMatchShape(value, pattern, name_hint)\<close>. The accessor \<^verbatim>\<open>checked_type()\<close> is declared
  outside the source files at hand; it is taken to fail on a type that is not set. In
  \<^verbatim>\<open>DynTensorType(pattern.size(), tty->dtype)\<close> the size is converted to \<^verbatim>\<open>int\<close>.
\<close>

definition EmitMatchShape_expr ::
  "Expr \<Rightarrow> PrimExpr list \<Rightarrow> string option \<Rightarrow> 'w IRBuilderNode \<Rightarrow> heap
     \<Rightarrow> ((error + Var) \<times> 'w IRBuilderNode) \<times> heap" where
  "EmitMatchShape_expr val pattern name_hint self h =
     (case CreateScopedVar self name_hint h of
        (Inl e, h') \<Rightarrow> ((Inl e, self), h')
      | (Inr var, h') \<Rightarrow>
          (case checked_type_of val of
             None \<Rightarrow> ((Inl CheckedTypeUndefinedError, self), h')
           | Some ShapeType \<Rightarrow>
               (EmitMatchShape
                  (MatchShape val pattern
                     (Var (var_kind var) (vid var) (var_shape var) (Some ShapeType))) self,
                h')
           | Some (DynTensorType r d) \<Rightarrow>
               (EmitMatchShape
                  (MatchShape val pattern
                     (Var (var_kind var) (vid var) (Some (ShapeExpr pattern))
                        (Some (DynTensorType (word_of_nat (length pattern)) d)))) self,
                h')
           | Some (TupleType flds) \<Rightarrow> ((Inl TypeMismatchError, self), h')
           | Some (OtherType kind) \<Rightarrow> ((Inl TypeMismatchError, self), h')))"

text \<open>
  \<^verbatim>\<open>EmitOutput(output, name_hint)\<close> builds a \<^verbatim>\<open>Var\<close> of class \<^verbatim>\<open>VarNode\<close> and hands the binding to
  \<^verbatim>\<open>Emit\<close>, as the source does.
\<close>

definition EmitOutput_expr ::
  "OpRegistry \<Rightarrow> Expr \<Rightarrow> string option \<Rightarrow> 'w IRBuilderNode \<Rightarrow> heap
     \<Rightarrow> ((error + Var) \<times> 'w IRBuilderNode) \<times> heap" where
  "EmitOutput_expr reg output name_hint self h =
     (if scopes self = [] then ((Inl EmptyScopeStackError, self), h)
      else case derived (last (scopes self)) of
        DataflowScopeNode bs \<Rightarrow>
          (case GetUniqueName self (value_or name_hint ''gv'') of
             Inl e \<Rightarrow> ((Inl e, self), h)
           | Inr name \<Rightarrow>
               (case CreateVarBinding reg (Var VarNode (Id h name) None None) output of
                  Inl e \<Rightarrow> ((Inl e, self), Suc h)
                | Inr binding \<Rightarrow> (Emit binding self, Suc h)))
      | NonDataflowScopeNode bs \<Rightarrow> ((Inl InvalidScopeError, self), h)
      | BaseScopeNode \<Rightarrow> ((Inl InvalidScopeError, self), h)
      | IRModuleScopeNode flds \<Rightarrow> ((Inl InvalidScopeError, self), h))"

section \<open>Sequences of operations\<close>

subsection \<open>Matched pushes and pops on the scope manager\<close>

text \<open>
  A sequence of manager operations in which every pop has its push: \<open>Block d acts\<close> pushes a
  scope of class \<open>d\<close> as its constructor makes it, runs \<open>acts\<close> and pops. \<open>Register\<close> is
  \<^verbatim>\<open>AddVars\<close> on the scope at the top of the stack, \<open>Attach\<close> is \<^verbatim>\<open>AddCallback\<close> on that scope;
  both need a scope to be there. The run stops at the first failure.
\<close>

datatype 'w Action =
    Register string ObjectRef
  | Attach "'w Callback"
  | Block ScopeNode "'w Action list"

fun run_action ::
  "'w Action \<Rightarrow> 'w ScopeManagerNode \<times> 'w \<Rightarrow> error + ('w ScopeManagerNode \<times> 'w)"
and run_actions ::
  "'w Action list \<Rightarrow> 'w ScopeManagerNode \<times> 'w \<Rightarrow> error + ('w ScopeManagerNode \<times> 'w)"
where
  "run_action (Register name val) (m, w) =
     (if scopes m = [] then Inl EmptyScopeStackError
      else case AddVars name val [length (scopes m) - 1] m of
        Inl e \<Rightarrow> Inl e
      | Inr m' \<Rightarrow> Inr (m', w))"
| "run_action (Attach cb) (m, w) =
     (if scopes m = [] then Inl EmptyScopeStackError
      else Inr (m\<lparr>scopes := butlast (scopes m) @ [AddCallback cb (last (scopes m))]\<rparr>, w))"
| "run_action (Block d acts) (m, w) =
     (case run_actions acts (snd (PushScope (new_scope d) m), w) of
        Inl e \<Rightarrow> Inl e
      | Inr (m1, w1) \<Rightarrow>
          (case PopScope m1 w1 of
             Inl e \<Rightarrow> Inl e
           | Inr (scope, m2, w2) \<Rightarrow> Inr (m2, w2)))"
| "run_actions [] (m, w) = Inr (m, w)"
| "run_actions (a # acts) (m, w) =
     (case run_action a (m, w) of
        Inl e \<Rightarrow> Inl e
      | Inr (m', w') \<Rightarrow> run_actions acts (m', w'))"

text \<open>
  What a balanced run may leave behind: new entries \<open>added\<close> at the end of the name table,
  none of them under a name that was registered before, their names appended to the names
  of the scope at the top, and callbacks on that scope.
\<close>

definition grows :: "'w ScopeManagerNode \<Rightarrow> 'w ScopeManagerNode \<Rightarrow> bool" where
  "grows m m' =
     (\<exists>added cbs.
        name2value m' = name2value m @ added
        \<and> fst ` set added \<inter> fst ` set (name2value m) = {}
        \<and> (if scopes m = [] then scopes m' = [] \<and> added = []
           else scopes m' = butlast (scopes m) @
                  [(last (scopes m))\<lparr>vars := vars (last (scopes m)) @ map fst added,
                                     callbacks := cbs\<rparr>]))"

subsection \<open>Operations of the builder\<close>

text \<open>
  The public operations of the builder that change it. A run goes on after a failed
  operation, with the builder as the failure left it, and collects the identities that
  the successful calls of \<^verbatim>\<open>Emit\<close> and \<^verbatim>\<open>EmitOutput\<close>, in either form, have recorded.
\<close>

datatype BuilderOp =
    OpBeginDataflowBlock
  | OpBeginBindingBlock
  | OpEndBlock
  | OpAddFuncToContext BaseFunc string
  | OpEmit VarBinding
  | OpEmitMatchShape MatchShape
  | OpEmitOutput VarBinding
  | OpEmit_expr Expr "string option"
  | OpEmitMatchShape_expr Expr "PrimExpr list" "string option"
  | OpEmitOutput_expr Expr "string option"

fun recorded_by :: "error + Var \<Rightarrow> Id list" where
  "recorded_by (Inl e) = []"
| "recorded_by (Inr v) = [vid v]"

fun run_op ::
  "OpRegistry \<Rightarrow> BuilderOp \<Rightarrow> 'w IRBuilderNode \<times> heap \<times> 'w
     \<Rightarrow> ('w IRBuilderNode \<times> heap \<times> 'w) \<times> Id list" where
  "run_op reg OpBeginDataflowBlock (self, h, w) = ((BeginDataflowBlock self, h, w), [])"
| "run_op reg OpBeginBindingBlock (self, h, w) = ((BeginBindingBlock self, h, w), [])"
| "run_op reg OpEndBlock (self, h, w) =
     (case EndBlock self w of (r, self', w') \<Rightarrow> ((self', h, w'), []))"
| "run_op reg (OpAddFuncToContext func name) (self, h, w) =
     (case AddFuncToContext func name self h of (r, self', h') \<Rightarrow> ((self', h', w), []))"
| "run_op reg (OpEmit b) (self, h, w) =
     (case Emit b self of (r, self') \<Rightarrow> ((self', h, w), recorded_by r))"
| "run_op reg (OpEmitMatchShape b) (self, h, w) =
     (case EmitMatchShape b self of (r, self') \<Rightarrow> ((self', h, w), []))"
| "run_op reg (OpEmitOutput b) (self, h, w) =
     (case EmitOutput b self of (r, self') \<Rightarrow> ((self', h, w), recorded_by r))"
| "run_op reg (OpEmit_expr e hint) (self, h, w) =
     (case Emit_expr reg e hint self h of ((r, self'), h') \<Rightarrow> ((self', h', w), recorded_by r))"
| "run_op reg (OpEmitMatchShape_expr e pattern hint) (self, h, w) =
     (case EmitMatchShape_expr e pattern hint self h of
        ((r, self'), h') \<Rightarrow> ((self', h', w), []))"
| "run_op reg (OpEmitOutput_expr e hint) (self, h, w) =
     (case EmitOutput_expr reg e hint self h of
        ((r, self'), h') \<Rightarrow> ((self', h', w), recorded_by r))"

fun run_ops ::
  "OpRegistry \<Rightarrow> BuilderOp list \<Rightarrow> 'w IRBuilderNode \<times> heap \<times> 'w
     \<Rightarrow> ('w IRBuilderNode \<times> heap \<times> 'w) \<times> Id list" where
  "run_ops reg [] st = (st, [])"
| "run_ops reg (op # ops) st =
     (case run_op reg op st of
        (st1, ids1) \<Rightarrow> (case run_ops reg ops st1 of (st2, ids2) \<Rightarrow> (st2, ids1 @ ids2)))"

section \<open>Concrete builders and expressions\<close>

text \<open>Inputs at which the theorems below are instantiated and the code is evaluated.\<close>

definition dataflow_builder :: "unit IRBuilderNode" where
  "dataflow_builder = \<lparr>scopes = [DataflowScope_new], name2value = [], id2bind = []\<rparr>"

definition binding_builder :: "unit IRBuilderNode" where
  "binding_builder = \<lparr>scopes = [NonDataflowScope_new], name2value = [], id2bind = []\<rparr>"

definition module_builder :: "unit IRBuilderNode" where
  "module_builder = \<lparr>scopes = [IRModuleScope_new], name2value = [], id2bind = []\<rparr>"

definition global_x :: Var where
  "global_x = Var VarNode (Id 100 ''x'') None None"

definition local_y :: Var where
  "local_y = Var DataflowVarNode (Id 101 ''y'') None None"

definition const_c :: Expr where
  "const_c = Expr (OtherNode ''Constant'') None None"

definition local_z :: Var where
  "local_z = Var DataflowVarNode (Id 102 ''z'') None None"

definition object_typed :: Expr where
  "object_typed = Expr (OtherNode ''Constant'') None (Some (OtherType ''ObjectType''))"

definition no_inference :: OpRegistry where
  "no_inference = \<lparr>FInferShape = (\<lambda>name. None), FInferType = (\<lambda>name. None)\<rparr>"

definition add_inference :: OpRegistry where
  "add_inference =
     \<lparr>FInferShape = (\<lambda>name. if name = ''add'' then Some (\<lambda>call. Some (ShapeExpr [IntImm 2]))
                               else None),
      FInferType = (\<lambda>name. if name = ''add''
                              then Some (\<lambda>call. Some (DynTensorType 1 ''float32''))
                              else None)\<rparr>"

definition add_call :: Expr where
  "add_call =
     Expr (CallNode (Expr (OpNode ''add'') None None) [VarExpr global_x, VarExpr global_x])
       None None"

definition tensor_2d :: Expr where
  "tensor_2d = Expr (OtherNode ''Constant'') None (Some (DynTensorType 2 ''float32''))"

definition shape_typed :: Expr where
  "shape_typed = Expr (OtherNode ''Constant'') None (Some ShapeType)"

definition pair_var :: Var where
  "pair_var =
     Var VarNode (Id 103 ''t'')
       (Some (Expr (TupleNode [ShapeExpr [IntImm 2], ShapeExpr [IntImm 3]]) None None))
       (Some (TupleType [DynTensorType 1 ''float32'', DynTensorType 1 ''int32'']))"

definition shape_pair_var :: Var where
  "shape_pair_var =
     Var VarNode (Id 104 ''s'')
       (Some (Expr (TupleNode [ShapeExpr [IntImm 2], ShapeExpr [IntImm 3]]) None None)) None"

definition type_pair_var :: Var where
  "type_pair_var =
     Var VarNode (Id 105 ''u'') None
       (Some (TupleType [DynTensorType 1 ''float32'', DynTensorType 1 ''int32'']))"

definition tuple_of_c :: Expr where
  "tuple_of_c = Expr (TupleNode [const_c]) None None"

definition project :: "Expr \<Rightarrow> 32 word \<Rightarrow> Expr" where
  "project tuple i = Expr (TupleGetItemNode tuple i) None None"

definition func_f :: BaseFunc where
  "func_f = BaseFunc 200 ''fn (x) { x }''"

definition func_f_again :: BaseFunc where
  "func_f_again = BaseFunc 201 ''fn (x) { x }''"

definition func_g :: BaseFunc where
  "func_g = BaseFunc 202 ''fn (x) { add(x, x) }''"

text \<open>A callback that logs its tag and the number of names it finds registered.\<close>

definition log_size :: "string \<Rightarrow> (string \<times> nat) list Callback" where
  "log_size tag n2v w = w @ [(tag, length n2v)]"

definition no_scopes :: "(string \<times> nat) list ScopeManagerNode" where
  "no_scopes = \<lparr>scopes = [], name2value = []\<rparr>"

definition nested_block :: "(string \<times> nat) list Action" where
  "nested_block =
     Block (DataflowScopeNode [])
       [Register ''a'' (ObjectRef 1), Attach (log_size ''first''),
        Block BaseScopeNode [Register ''b'' (ObjectRef 2), Attach (log_size ''inner'')],
        Attach (log_size ''second'')]"

definition open_scope :: "(string \<times> nat) list ScopeManagerNode" where
  "open_scope =
     \<lparr>scopes = [\<lparr>vars = [''a''], callbacks = [log_size ''first'', log_size ''second''],
                 derived = BaseScopeNode\<rparr>],
      name2value = [(''z'', ObjectRef 0), (''a'', ObjectRef 1)]\<rparr>"

text \<open>A manager with one open scope and no name registered, and the same manager after a
  second scope has been pushed and the name \<open>a\<close> registered in the first, lower scope.\<close>

definition lower_scope :: "unit ScopeManagerNode" where
  "lower_scope = \<lparr>scopes = [BaseScope_new], name2value = []\<rparr>"

definition registered_below :: "unit ScopeManagerNode" where
  "registered_below =
     \<lparr>scopes = [AddVar ''a'' BaseScope_new, BaseScope_new],
      name2value = [(''a'', ObjectRef 1)]\<rparr>"

definition short_type_pair_var :: Var where
  "short_type_pair_var =
     Var VarNode (Id 106 ''r'')
       (Some (Expr (TupleNode [ShapeExpr [IntImm 2], ShapeExpr [IntImm 3]]) None None))
       (Some (TupleType [DynTensorType 1 ''float32'']))"

text \<open>The name \<open>prefix @ to_string i\<close> is not registered.\<close>

definition free_at :: "NameTable \<Rightarrow> string \<Rightarrow> nat \<Rightarrow> bool" where
  "free_at n2v prefix i = (map_of n2v (prefix @ to_string i) = None)"

section \<open>Unique names\<close>

lemma digit_inj: "a < 10 \<Longrightarrow> b < 10 \<Longrightarrow> digit a = digit b \<Longrightarrow> a = b"
proof -
  assume a: "a < 10" and b: "b < 10" and e: "digit a = digit b"
  have d: "distinct ''0123456789''" by simp
  have la: "a < length ''0123456789''" using a by simp
  have lb: "b < length ''0123456789''" using b by simp
  from e have "''0123456789'' ! a = ''0123456789'' ! b" by (simp only: digit_def)
  with d la lb show "a = b" by (simp only: nth_eq_iff_index_eq)
qed

lemma to_string_small: "n < 10 \<Longrightarrow> to_string n = [digit n]"
  by (simp add: to_string.simps)

lemma to_string_big: "\<not> n < 10 \<Longrightarrow> to_string n = to_string (n div 10) @ [digit (n mod 10)]"
  by (subst to_string.simps) simp

lemma to_string_not_Nil: "to_string n \<noteq> []"
  by (cases "n < 10") (simp_all add: to_string_small to_string_big)

lemma to_string_inj: "to_string n = to_string m \<Longrightarrow> n = m"
proof (induction n arbitrary: m rule: to_string.induct)
  case (1 n)
  show ?case
  proof (cases "n < 10")
    case True
    note n = this
    show ?thesis
    proof (cases "m < 10")
      case True
      with n "1.prems" show ?thesis by (simp add: to_string_small digit_inj)
    next
      case False
      with n "1.prems" show ?thesis
        using to_string_not_Nil [of "m div 10"] by (simp add: to_string_small to_string_big)
    qed
  next
    case False
    note n = this
    show ?thesis
    proof (cases "m < 10")
      case True
      with n "1.prems" show ?thesis
        using to_string_not_Nil [of "n div 10"] by (simp add: to_string_small to_string_big)
    next
      case False
      with n "1.prems" have e: "to_string (n div 10) = to_string (m div 10)"
        and d: "digit (n mod 10) = digit (m mod 10)"
        by (simp_all add: to_string_big)
      from "1.IH" [OF n e] have q: "n div 10 = m div 10" .
      have r: "n mod 10 = m mod 10" using d by (intro digit_inj) simp_all
      from q r show ?thesis by (metis div_mult_mod_eq)
    qed
  qed
qed

lemma GetUniqueName_from_first:
  "i \<le> k \<Longrightarrow> k \<le> INT_MAX \<Longrightarrow> free_at n2v prefix k \<Longrightarrow> \<forall>j. i \<le> j \<and> j < k \<longrightarrow> \<not> free_at n2v prefix j
   \<Longrightarrow> GetUniqueName_from n2v prefix i = Inr (prefix @ to_string k)"
proof (induction "k - i" arbitrary: i)
  case 0
  then have "i = k" by simp
  with 0 show ?case by (subst GetUniqueName_from.simps) (simp add: free_at_def)
next
  case (Suc d)
  then have lt: "i < k" by simp
  with Suc.prems have nf: "\<not> free_at n2v prefix i" by simp
  have "GetUniqueName_from n2v prefix (i + 1) = Inr (prefix @ to_string k)"
    using Suc lt by (intro Suc.hyps(1)) auto
  with nf lt Suc.prems(2) show ?case
    by (subst GetUniqueName_from.simps) (auto simp add: free_at_def)
qed

lemma pigeon:
  assumes "length n2v < 2 ^ 31"
  shows "\<exists>k\<le>INT_MAX. free_at n2v prefix k"
proof (rule ccontr)
  assume "\<not> ?thesis"
  then have all: "\<forall>k\<le>INT_MAX. prefix @ to_string k \<in> fst ` set n2v"
    by (auto simp: free_at_def map_of_eq_None_iff)
  let ?f = "\<lambda>k. prefix @ to_string k"
  have inj: "inj_on ?f {..INT_MAX}" by (auto simp: inj_on_def dest: to_string_inj)
  have sub: "?f ` {..INT_MAX} \<subseteq> fst ` set n2v" using all by auto
  have "card (?f ` {..INT_MAX}) = card {..INT_MAX}" using inj by (rule card_image)
  also have "\<dots> = 2 ^ 31" by (simp add: INT_MAX_def)
  finally have c: "card (?f ` {..INT_MAX}) = 2 ^ 31" .
  have "card (?f ` {..INT_MAX}) \<le> card (fst ` set n2v)"
    using sub by (intro card_mono) auto
  also have "\<dots> \<le> card (set n2v)" by (intro card_image_le) simp
  also have "\<dots> \<le> length n2v" by (rule card_length)
  finally show False using c assms by simp
qed

lemma GetUniqueName_least:
  fixes self :: "('w, 'z) ScopeManagerNode_scheme"
  assumes len: "length (name2value self) < 2 ^ 31"
  shows "\<exists>k. GetUniqueName self prefix = Inr (prefix @ to_string k)
           \<and> free_at (name2value self) prefix k
           \<and> (\<forall>j<k. \<not> free_at (name2value self) prefix j)"
proof -
  define P where "P = (\<lambda>k. k \<le> INT_MAX \<and> free_at (name2value self) prefix k)"
  from pigeon [OF len] have ex: "\<exists>k. P k" by (auto simp: P_def)
  define k where "k = (LEAST k. P k)"
  have Pk: "P k" unfolding k_def using ex by (auto intro: LeastI)
  have least: "\<forall>j<k. \<not> P j" unfolding k_def using not_less_Least by blast
  have below: "\<forall>j. 0 \<le> j \<and> j < k \<longrightarrow> \<not> free_at (name2value self) prefix j"
    using least Pk by (auto simp: P_def)
  have "GetUniqueName_from (name2value self) prefix 0 = Inr (prefix @ to_string k)"
    using Pk below by (intro GetUniqueName_from_first) (auto simp: P_def)
  then show ?thesis
    using Pk below by (auto simp: GetUniqueName_def P_def)
qed

lemma GetUniqueName_Inr:
  fixes self :: "('w, 'z) ScopeManagerNode_scheme"
  shows "length (name2value self) < 2 ^ 31 \<Longrightarrow> \<exists>name. GetUniqueName self prefix = Inr name"
  using GetUniqueName_least [of self prefix] by blast

text \<open>
  C2 (as amended). In a name table of fewer than \<open>2 ^ 31\<close> entries, \<^verbatim>\<open>GetUniqueName\<close> returns
  \<open>prefix @ to_string k\<close> for the least \<open>k\<close> whose name is not registered; the result is a
  function of the table and the prefix. The call registers nothing: on an empty table it
  returns \<open>''lv0''\<close> for the prefix \<open>''lv''\<close> however often it is called, and \<open>''lv1''\<close> once
  \<open>''lv0''\<close> has been registered with \<^verbatim>\<open>AddVars\<close>.
\<close>

theorem GetUniqueName_first_unregistered:
  fixes self :: "('w, 'z) ScopeManagerNode_scheme"
  shows "(length (name2value self) < 2 ^ 31 \<longrightarrow>
           (\<exists>k. GetUniqueName self prefix = Inr (prefix @ to_string k)
              \<and> free_at (name2value self) prefix k
              \<and> (\<forall>j<k. \<not> free_at (name2value self) prefix j)))
       \<and> (name2value self = [] \<longrightarrow>
           GetUniqueName self ''lv'' = Inr ''lv0''
           \<and> (\<forall>val scope self'. AddVars ''lv0'' val scope self = Inr self'
                 \<longrightarrow> GetUniqueName self' ''lv'' = Inr ''lv1''))"
proof (rule conjI; rule impI)
  assume len: "length (name2value self) < 2 ^ 31"
  then show "\<exists>k. GetUniqueName self prefix = Inr (prefix @ to_string k)
      \<and> free_at (name2value self) prefix k
      \<and> (\<forall>j<k. \<not> free_at (name2value self) prefix j)"
    by (rule GetUniqueName_least)
next
  assume e: "name2value self = []"
  have z: "to_string 0 = ''0''" and o: "to_string 1 = ''1''"
    by (simp_all add: to_string.simps digit_def)
  show "GetUniqueName self ''lv'' = Inr ''lv0''
      \<and> (\<forall>val scope self'. AddVars ''lv0'' val scope self = Inr self'
            \<longrightarrow> GetUniqueName self' ''lv'' = Inr ''lv1'')"
    using e z o
    by (auto simp: GetUniqueName_def GetUniqueName_from.simps [of _ _ 0]
        GetUniqueName_from.simps [of _ _ "Suc 0"] AddVars_def INT_MAX_def)
qed

theorem GetUniqueName_first_unregistered_witness:
  "length (name2value \<lparr>scopes = [] :: unit BaseScope list, name2value = [(''lv0'', ObjectRef 0)]\<rparr>)
     < 2 ^ 31
   \<and> GetUniqueName \<lparr>scopes = [] :: unit BaseScope list, name2value = [(''lv0'', ObjectRef 0)]\<rparr>
       ''lv'' = Inr ''lv1''
   \<and> name2value \<lparr>scopes = [] :: unit BaseScope list, name2value = []\<rparr> = []
   \<and> GetUniqueName \<lparr>scopes = [] :: unit BaseScope list, name2value = []\<rparr> ''lv'' = Inr ''lv0''
   \<and> AddVars ''lv0'' (ObjectRef 0) [] \<lparr>scopes = [] :: unit BaseScope list, name2value = []\<rparr>
       = Inr \<lparr>scopes = [], name2value = [(''lv0'', ObjectRef 0)]\<rparr>"
  using GetUniqueName_first_unregistered
    [of "\<lparr>scopes = [] :: unit BaseScope list, name2value = []\<rparr>" "''lv''"]
  by (simp add: AddVars_def AddVar_at_def)

text \<open>
  C2 as stated fails: \<^verbatim>\<open>GetUniqueName\<close> leaves the manager as it is, so the second of two
  consecutive calls reads the same empty name table as the first; the two calls do not
  return \<open>''lv0''\<close> and then \<open>''lv1''\<close>.
\<close>

theorem GetUniqueName_twice_counterexample:
  "\<not> (GetUniqueName \<lparr>scopes = [] :: unit BaseScope list, name2value = []\<rparr> ''lv'' = Inr ''lv0''
      \<and> GetUniqueName \<lparr>scopes = [] :: unit BaseScope list, name2value = []\<rparr> ''lv'' = Inr ''lv1'')"
  by (simp add: GetUniqueName_def GetUniqueName_from.simps [of _ _ 0] to_string.simps digit_def)

section \<open>Evaluation at concrete inputs\<close>

lemmas eval_names = GetUniqueName_def GetUniqueName_from.simps to_string.simps digit_def
  value_or_def

lemmas eval_builders = dataflow_builder_def binding_builder_def module_builder_def
  DataflowScope_new_def NonDataflowScope_new_def IRModuleScope_new_def new_scope_def
  empty_module_def

section \<open>Emit and the scope discipline\<close>

text \<open>
  C6. With a scope on the stack, \<^verbatim>\<open>Emit(binding)\<close> of a binding whose variable is global (of
  class \<^verbatim>\<open>VarNode\<close>) fails with \<open>ScopeDisciplineError\<close> and leaves the builder as it is when
  the current scope is a dataflow scope; when the current scope is a non-dataflow scope it
  succeeds, appends the binding to that scope and records the value under the identity of
  the variable, so that \<^verbatim>\<open>LookupBinding\<close> finds it. With a local variable (of class
  \<^verbatim>\<open>DataflowVarNode\<close>) in a dataflow scope it succeeds in the same way.
\<close>

theorem Emit_scope_discipline:
  fixes self :: "'w IRBuilderNode"
  assumes "scopes self \<noteq> []"
  shows "(derived (last (scopes self)) = DataflowScopeNode bs
            \<and> var_kind (binding_var b) = VarNode
          \<longrightarrow> Emit b self = (Inl ScopeDisciplineError, self))
       \<and> (derived (last (scopes self)) = NonDataflowScopeNode bs
            \<and> var_kind (binding_var b) = VarNode
          \<longrightarrow> Emit b self =
                (Inr (binding_var b),
                 self\<lparr>scopes := butlast (scopes self) @
                        [(last (scopes self))\<lparr>derived :=
                           NonDataflowScopeNode (bs @ [VarBindingNode b])\<rparr>],
                      id2bind := AList.update (vid (binding_var b)) (binding_value b)
                                   (id2bind self)\<rparr>)
              \<and> LookupBinding (snd (Emit b self)) (vid (binding_var b))
                  = Inr (binding_value b))
       \<and> (derived (last (scopes self)) = DataflowScopeNode bs
            \<and> var_kind (binding_var b) = DataflowVarNode
          \<longrightarrow> Emit b self =
                (Inr (binding_var b),
                 self\<lparr>scopes := butlast (scopes self) @
                        [(last (scopes self))\<lparr>derived :=
                           DataflowScopeNode (bs @ [VarBindingNode b])\<rparr>],
                      id2bind := AList.update (vid (binding_var b)) (binding_value b)
                                   (id2bind self)\<rparr>)
              \<and> LookupBinding (snd (Emit b self)) (vid (binding_var b))
                  = Inr (binding_value b))"
  using assms
  by (simp add: Emit_def record_binding_def push_binding_def LookupBinding_def update_conv')

theorem Emit_scope_discipline_witness:
  "scopes dataflow_builder \<noteq> [] \<and> scopes binding_builder \<noteq> []
   \<and> derived (last (scopes dataflow_builder)) = DataflowScopeNode []
   \<and> derived (last (scopes binding_builder)) = NonDataflowScopeNode []
   \<and> var_kind (binding_var (VarBinding global_x const_c)) = VarNode
   \<and> var_kind (binding_var (VarBinding local_y const_c)) = DataflowVarNode
   \<and> Emit (VarBinding global_x const_c) dataflow_builder
       = (Inl ScopeDisciplineError, dataflow_builder)
   \<and> fst (Emit (VarBinding global_x const_c) binding_builder) = Inr global_x
   \<and> LookupBinding (snd (Emit (VarBinding global_x const_c) binding_builder)) (vid global_x)
       = Inr const_c
   \<and> fst (Emit (VarBinding local_y const_c) dataflow_builder) = Inr local_y
   \<and> LookupBinding (snd (Emit (VarBinding local_y const_c) dataflow_builder)) (vid local_y)
       = Inr const_c"
  using Emit_scope_discipline [of dataflow_builder "[]" "VarBinding global_x const_c"]
    Emit_scope_discipline [of binding_builder "[]" "VarBinding global_x const_c"]
    Emit_scope_discipline [of dataflow_builder "[]" "VarBinding local_y const_c"]
  by (auto simp add: dataflow_builder_def binding_builder_def DataflowScope_new_def
      NonDataflowScope_new_def new_scope_def global_x_def local_y_def)

section \<open>Failed emissions\<close>

lemma Emit_failure:
  "fst (Emit b self) = Inl e \<Longrightarrow> snd (Emit b self) = self"
  by (simp add: Emit_def record_binding_def split: if_splits ScopeNode.splits)

lemma EmitOutput_failure:
  "fst (EmitOutput b self) = Inl e \<Longrightarrow> snd (EmitOutput b self) = self"
  by (simp add: EmitOutput_def record_binding_def split: if_splits ScopeNode.splits)

lemma EmitMatchShape_failure:
  "fst (EmitMatchShape m self) = Inl e \<Longrightarrow> snd (EmitMatchShape m self) = self"
  by (simp add: EmitMatchShape_def split: if_splits ScopeNode.splits)

lemma Emit_expr_failure:
  "fst (fst (Emit_expr reg x hint self h)) = Inl e
   \<Longrightarrow> snd (fst (Emit_expr reg x hint self h)) = self"
  by (auto simp: Emit_expr_def Emit_failure split: prod.splits sum.splits)

lemma EmitMatchShape_expr_failure:
  "fst (fst (EmitMatchShape_expr v p hint self h)) = Inl e
   \<Longrightarrow> snd (fst (EmitMatchShape_expr v p hint self h)) = self"
  by (auto simp: EmitMatchShape_expr_def EmitMatchShape_failure
      split: prod.splits sum.splits option.splits Type.splits)

lemma EmitOutput_expr_failure:
  "fst (fst (EmitOutput_expr reg x hint self h)) = Inl e
   \<Longrightarrow> snd (fst (EmitOutput_expr reg x hint self h)) = self"
  by (auto simp: EmitOutput_expr_def Emit_failure
      split: if_splits ScopeNode.splits sum.splits)

text \<open>
  C10. An emitting operation that fails leaves the builder as it found it: no binding is
  appended to a scope and \<^verbatim>\<open>id2bind\<close> is not changed. This holds for \<^verbatim>\<open>Emit\<close>, \<^verbatim>\<open>EmitOutput\<close> and
  \<^verbatim>\<open>EmitMatchShape\<close> on a binding and for the three forms that create the binding.
\<close>

theorem failed_emission_leaves_builder:
  fixes self :: "'w IRBuilderNode"
  shows "(fst (Emit b self) = Inl e \<longrightarrow> snd (Emit b self) = self)
       \<and> (fst (EmitOutput b self) = Inl e \<longrightarrow> snd (EmitOutput b self) = self)
       \<and> (fst (EmitMatchShape m self) = Inl e \<longrightarrow> snd (EmitMatchShape m self) = self)
       \<and> (fst (fst (Emit_expr reg x hint self h)) = Inl e
            \<longrightarrow> snd (fst (Emit_expr reg x hint self h)) = self)
       \<and> (fst (fst (EmitMatchShape_expr v p hint self h)) = Inl e
            \<longrightarrow> snd (fst (EmitMatchShape_expr v p hint self h)) = self)
       \<and> (fst (fst (EmitOutput_expr reg x hint self h)) = Inl e
            \<longrightarrow> snd (fst (EmitOutput_expr reg x hint self h)) = self)"
  by (intro conjI impI)
    (erule Emit_failure EmitOutput_failure EmitMatchShape_failure Emit_expr_failure
      EmitMatchShape_expr_failure EmitOutput_expr_failure)+

theorem failed_emission_leaves_builder_witness:
  "fst (Emit (VarBinding global_x const_c) dataflow_builder) = Inl ScopeDisciplineError
   \<and> snd (Emit (VarBinding global_x const_c) dataflow_builder) = dataflow_builder
   \<and> fst (EmitOutput (VarBinding local_y const_c) binding_builder) = Inl InvalidScopeError
   \<and> snd (EmitOutput (VarBinding local_y const_c) binding_builder) = binding_builder
   \<and> fst (EmitMatchShape (MatchShape const_c [] local_y) binding_builder)
       = Inl ScopeDisciplineError
   \<and> snd (EmitMatchShape (MatchShape const_c [] local_y) binding_builder) = binding_builder
   \<and> fst (fst (Emit_expr no_inference const_c None module_builder 0)) = Inl InvalidScopeError
   \<and> snd (fst (Emit_expr no_inference const_c None module_builder 0)) = module_builder
   \<and> fst (fst (EmitMatchShape_expr object_typed [] None binding_builder 0))
       = Inl TypeMismatchError
   \<and> snd (fst (EmitMatchShape_expr object_typed [] None binding_builder 0)) = binding_builder
   \<and> fst (fst (EmitOutput_expr no_inference const_c None binding_builder 0))
       = Inl InvalidScopeError
   \<and> snd (fst (EmitOutput_expr no_inference const_c None binding_builder 0)) = binding_builder"
proof -
  have a: "fst (Emit (VarBinding global_x const_c) dataflow_builder) = Inl ScopeDisciplineError"
    by (simp add: Emit_def eval_builders global_x_def)
  have b: "fst (EmitOutput (VarBinding local_y const_c) binding_builder) = Inl InvalidScopeError"
    by (simp add: EmitOutput_def eval_builders)
  have c: "fst (EmitMatchShape (MatchShape const_c [] local_y) binding_builder)
      = Inl ScopeDisciplineError"
    by (simp add: EmitMatchShape_def eval_builders local_y_def)
  have d: "fst (fst (Emit_expr no_inference const_c None module_builder 0))
      = Inl InvalidScopeError"
    by (simp add: Emit_expr_def CreateScopedVar_def eval_builders)
  have e: "fst (fst (EmitMatchShape_expr object_typed [] None binding_builder 0))
      = Inl TypeMismatchError"
    by (simp add: EmitMatchShape_expr_def CreateScopedVar_def eval_builders eval_names
        object_typed_def)
  have f: "fst (fst (EmitOutput_expr no_inference const_c None binding_builder 0))
      = Inl InvalidScopeError"
    by (simp add: EmitOutput_expr_def eval_builders)
  note inst = failed_emission_leaves_builder [where reg = no_inference and x = const_c
      and hint = None and h = 0 and v = object_typed and p = "[]"
      and m = "MatchShape const_c [] local_y"]
  show ?thesis
    using a b c d e f
      inst [where b = "VarBinding global_x const_c" and self = dataflow_builder
        and e = ScopeDisciplineError]
      inst [where b = "VarBinding local_y const_c" and self = binding_builder
        and e = InvalidScopeError]
      inst [where b = "VarBinding local_y const_c" and self = binding_builder
        and e = ScopeDisciplineError]
      inst [where b = "VarBinding local_y const_c" and self = module_builder
        and e = InvalidScopeError]
      inst [where b = "VarBinding local_y const_c" and self = binding_builder
        and e = TypeMismatchError]
    by simp
qed

section \<open>Lookup of bindings\<close>

lemma push_binding_id2bind: "id2bind (push_binding b self) = id2bind self"
  by (simp add: push_binding_def)

lemma Emit_lookup:
  "Emit b self = (r, self') \<Longrightarrow> i \<notin> set (recorded_by r)
   \<Longrightarrow> map_of (id2bind self') i = map_of (id2bind self) i"
  by (auto simp: Emit_def record_binding_def push_binding_id2bind update_conv'
      split: if_splits ScopeNode.splits)

lemma EmitOutput_lookup:
  "EmitOutput b self = (r, self') \<Longrightarrow> i \<notin> set (recorded_by r)
   \<Longrightarrow> map_of (id2bind self') i = map_of (id2bind self) i"
  by (auto simp: EmitOutput_def record_binding_def push_binding_id2bind update_conv'
      split: if_splits ScopeNode.splits)

lemma EmitMatchShape_id2bind: "id2bind (snd (EmitMatchShape m self)) = id2bind self"
  by (simp add: EmitMatchShape_def push_binding_id2bind split: ScopeNode.splits)

lemma EmitMatchShape_expr_id2bind:
  "id2bind (snd (fst (EmitMatchShape_expr v p hint self h))) = id2bind self"
  by (simp add: EmitMatchShape_expr_def EmitMatchShape_id2bind
      split: prod.splits sum.splits option.splits Type.splits)

lemma Emit_expr_lookup:
  "Emit_expr reg x hint self h = ((r, self'), h') \<Longrightarrow> i \<notin> set (recorded_by r)
   \<Longrightarrow> map_of (id2bind self') i = map_of (id2bind self) i"
  by (auto simp: Emit_expr_def dest: Emit_lookup split: prod.splits sum.splits)

lemma EmitOutput_expr_lookup:
  "EmitOutput_expr reg x hint self h = ((r, self'), h') \<Longrightarrow> i \<notin> set (recorded_by r)
   \<Longrightarrow> map_of (id2bind self') i = map_of (id2bind self) i"
  by (auto simp: EmitOutput_expr_def dest: Emit_lookup
      split: if_splits ScopeNode.splits sum.splits)

lemma EndBlock_id2bind: "EndBlock self w = (r, self', w') \<Longrightarrow> id2bind self' = id2bind self"
  by (auto simp: EndBlock_def PopScope_def Let_def
      split: if_splits sum.splits prod.splits ScopeNode.splits)

lemma AddFuncToContext_id2bind:
  "AddFuncToContext f n self h = (r, self', h') \<Longrightarrow> id2bind self' = id2bind self"
  by (auto simp: AddFuncToContext_def split: option.splits ScopeNode.splits prod.splits)

lemma run_op_lookup:
  "run_op reg op (self, h, w) = ((self', h', w'), ids) \<Longrightarrow> i \<notin> set ids
   \<Longrightarrow> map_of (id2bind self') i = map_of (id2bind self) i"
proof (cases op)
  case OpBeginDataflowBlock
  then show "run_op reg op (self, h, w) = ((self', h', w'), ids) \<Longrightarrow> ?thesis"
    by (auto simp: BeginDataflowBlock_def)
next
  case OpBeginBindingBlock
  then show "run_op reg op (self, h, w) = ((self', h', w'), ids) \<Longrightarrow> ?thesis"
    by (auto simp: BeginBindingBlock_def)
next
  case OpEndBlock
  then show "run_op reg op (self, h, w) = ((self', h', w'), ids) \<Longrightarrow> ?thesis"
    by (auto dest: EndBlock_id2bind split: prod.splits)
next
  case (OpAddFuncToContext f n)
  then show "run_op reg op (self, h, w) = ((self', h', w'), ids) \<Longrightarrow> ?thesis"
    by (auto dest: AddFuncToContext_id2bind split: prod.splits)
next
  case (OpEmit b)
  then show "run_op reg op (self, h, w) = ((self', h', w'), ids) \<Longrightarrow> i \<notin> set ids \<Longrightarrow> ?thesis"
    by (auto dest: Emit_lookup split: prod.splits)
next
  case (OpEmitMatchShape m)
  then show "run_op reg op (self, h, w) = ((self', h', w'), ids) \<Longrightarrow> ?thesis"
    using EmitMatchShape_id2bind [of m self] by (auto split: prod.splits)
next
  case (OpEmitOutput b)
  then show "run_op reg op (self, h, w) = ((self', h', w'), ids) \<Longrightarrow> i \<notin> set ids \<Longrightarrow> ?thesis"
    by (auto dest: EmitOutput_lookup split: prod.splits)
next
  case (OpEmit_expr x hint)
  then show "run_op reg op (self, h, w) = ((self', h', w'), ids) \<Longrightarrow> i \<notin> set ids \<Longrightarrow> ?thesis"
    by (auto dest: Emit_expr_lookup split: prod.splits)
next
  case (OpEmitMatchShape_expr v p hint)
  then show "run_op reg op (self, h, w) = ((self', h', w'), ids) \<Longrightarrow> ?thesis"
    using EmitMatchShape_expr_id2bind [of v p hint self h] by (auto split: prod.splits)
next
  case (OpEmitOutput_expr x hint)
  then show "run_op reg op (self, h, w) = ((self', h', w'), ids) \<Longrightarrow> i \<notin> set ids \<Longrightarrow> ?thesis"
    by (auto dest: EmitOutput_expr_lookup split: prod.splits)
qed

lemma run_ops_lookup:
  "run_ops reg ops (self, h, w) = ((self', h', w'), ids) \<Longrightarrow> i \<notin> set ids
   \<Longrightarrow> map_of (id2bind self') i = map_of (id2bind self) i"
proof (induction ops arbitrary: self h w ids)
  case Nil
  then show ?case by simp
next
  case (Cons op ops)
  obtain self1 h1 w1 ids1 where s1: "run_op reg op (self, h, w) = ((self1, h1, w1), ids1)"
    by (metis prod.exhaust)
  obtain st2 ids2 where s2: "run_ops reg ops (self1, h1, w1) = (st2, ids2)"
    by (metis prod.exhaust)
  from Cons.prems(1) s1 s2 have st2: "st2 = (self', h', w')" and ids: "ids = ids1 @ ids2"
    by simp_all
  from Cons.prems(2) ids have n1: "i \<notin> set ids1" and n2: "i \<notin> set ids2" by simp_all
  from run_op_lookup [OF s1 n1] have a: "map_of (id2bind self1) i = map_of (id2bind self) i" .
  from Cons.IH [OF s2 [unfolded st2] n2]
  have "map_of (id2bind self') i = map_of (id2bind self1) i" .
  with a show ?case by simp
qed

text \<open>
  C7. After any run of builder operations, \<^verbatim>\<open>LookupBinding\<close> fails with
  \<open>UnboundVariableError\<close> on every identity that it failed on before the run and that no
  successful \<^verbatim>\<open>Emit\<close> or \<^verbatim>\<open>EmitOutput\<close> of the run has recorded. \<^verbatim>\<open>EmitMatchShape\<close>, in both
  forms, leaves \<^verbatim>\<open>id2bind\<close> as it is, so the variable it binds is not found afterwards
  unless it was found before.
\<close>

theorem LookupBinding_unrecorded:
  fixes self :: "'w IRBuilderNode"
  shows "(run_ops reg ops (self, h, w) = ((self', h', w'), ids) \<and> i \<notin> set ids
            \<and> LookupBinding self i = Inl UnboundVariableError
          \<longrightarrow> LookupBinding self' i = Inl UnboundVariableError)
       \<and> id2bind (snd (EmitMatchShape m self)) = id2bind self
       \<and> id2bind (snd (fst (EmitMatchShape_expr v p hint self h))) = id2bind self
       \<and> (fst (EmitMatchShape m self) = Inr x
            \<and> LookupBinding self (vid x) = Inl UnboundVariableError
          \<longrightarrow> LookupBinding (snd (EmitMatchShape m self)) (vid x) = Inl UnboundVariableError)"
proof -
  have "LookupBinding self' i = Inl UnboundVariableError"
    if "run_ops reg ops (self, h, w) = ((self', h', w'), ids)" "i \<notin> set ids"
      "LookupBinding self i = Inl UnboundVariableError"
    using run_ops_lookup [OF that(1) that(2)] that(3)
    by (simp add: LookupBinding_def split: option.splits)
  then show ?thesis
    by (simp add: EmitMatchShape_id2bind EmitMatchShape_expr_id2bind LookupBinding_def)
qed

theorem LookupBinding_unrecorded_witness:
  "snd (run_ops no_inference
          [OpEmit (VarBinding local_y const_c), OpEmitMatchShape (MatchShape const_c [] local_z)]
          (dataflow_builder, 0, ())) = [vid local_y]
   \<and> vid local_z \<notin> set [vid local_y]
   \<and> LookupBinding dataflow_builder (vid local_z) = Inl UnboundVariableError
   \<and> LookupBinding
        (fst (fst (run_ops no_inference
          [OpEmit (VarBinding local_y const_c), OpEmitMatchShape (MatchShape const_c [] local_z)]
          (dataflow_builder, 0, ())))) (vid local_z) = Inl UnboundVariableError
   \<and> fst (EmitMatchShape (MatchShape const_c [] local_z) dataflow_builder) = Inr local_z
   \<and> LookupBinding (snd (EmitMatchShape (MatchShape const_c [] local_z) dataflow_builder))
        (vid local_z) = Inl UnboundVariableError"
proof -
  let ?ops = "[OpEmit (VarBinding local_y const_c),
               OpEmitMatchShape (MatchShape const_c [] local_z)]"
  let ?r = "run_ops no_inference ?ops (dataflow_builder, 0, ())"
  have ids: "snd ?r = [vid local_y]"
    by (simp add: Emit_def EmitMatchShape_def record_binding_def push_binding_def
        eval_builders local_y_def local_z_def)
  have eq: "?r = ((fst (fst ?r), fst (snd (fst ?r)), snd (snd (fst ?r))), snd ?r)"
    by (simp only: prod.collapse)
  have nz: "vid local_z \<notin> set (snd ?r)"
    unfolding ids by (simp add: local_y_def local_z_def)
  have l0: "LookupBinding dataflow_builder (vid local_z) = Inl UnboundVariableError"
    by (simp add: LookupBinding_def dataflow_builder_def)
  have ok: "fst (EmitMatchShape (MatchShape const_c [] local_z) dataflow_builder) = Inr local_z"
    by (simp add: EmitMatchShape_def eval_builders local_z_def)
  show ?thesis
    using ids nz l0 ok eq
      LookupBinding_unrecorded [where reg = no_inference and ops = ?ops
        and self = dataflow_builder and h = 0 and w = "()" and self' = "fst (fst ?r)"
        and h' = "fst (snd (fst ?r))" and w' = "snd (snd (fst ?r))" and ids = "snd ?r"
        and i = "vid local_z" and m = "MatchShape const_c [] local_z" and x = local_z]
    by (simp add: local_y_def local_z_def)
qed

section \<open>Match-shape refinement\<close>

lemma CreateScopedVar_dataflow:
  fixes self :: "'w IRBuilderNode"
  assumes "scopes self \<noteq> []" "derived (last (scopes self)) = DataflowScopeNode bs"
    "length (name2value self) < 2 ^ 31"
  shows "\<exists>name. GetUniqueName self (value_or hint ''lv'') = Inr name
           \<and> CreateScopedVar self hint h
               = (Inr (Var DataflowVarNode (Id h name) None None), Suc h)"
  using assms GetUniqueName_Inr [of self "value_or hint ''lv''"]
  by (auto simp: CreateScopedVar_def)

lemma CreateScopedVar_binding:
  fixes self :: "'w IRBuilderNode"
  assumes "scopes self \<noteq> []" "derived (last (scopes self)) = NonDataflowScopeNode bs"
    "length (name2value self) < 2 ^ 31"
  shows "\<exists>name. GetUniqueName self (value_or hint ''gv'') = Inr name
           \<and> CreateScopedVar self hint h = (Inr (Var VarNode (Id h name) None None), Suc h)"
  using assms GetUniqueName_Inr [of self "value_or hint ''gv''"]
  by (auto simp: CreateScopedVar_def)

text \<open>In a block scope the new variable is of the class that the scope accepts.\<close>

lemma CreateScopedVar_block:
  fixes self :: "'w IRBuilderNode"
  assumes "scopes self \<noteq> []"
    "is_DataflowScope (derived (last (scopes self)))
      \<or> is_NonDataflowScope (derived (last (scopes self)))"
    "length (name2value self) < 2 ^ 31"
  shows "\<exists>k i. CreateScopedVar self hint h = (Inr (Var k i None None), Suc h)
           \<and> (k = DataflowVarNode) = is_DataflowScope (derived (last (scopes self)))"
proof (cases "derived (last (scopes self))")
  case (DataflowScopeNode bs)
  from CreateScopedVar_dataflow [OF assms(1) this assms(3), of hint h]
  obtain name where "CreateScopedVar self hint h
      = (Inr (Var DataflowVarNode (Id h name) None None), Suc h)" by blast
  with DataflowScopeNode show ?thesis by auto
next
  case (NonDataflowScopeNode bs)
  from CreateScopedVar_binding [OF assms(1) this assms(3), of hint h]
  obtain name where "CreateScopedVar self hint h
      = (Inr (Var VarNode (Id h name) None None), Suc h)" by blast
  with NonDataflowScopeNode show ?thesis by auto
next
  case BaseScopeNode
  with assms(2) show ?thesis by simp
next
  case (IRModuleScopeNode m)
  with assms(2) show ?thesis by simp
qed

lemma EmitMatchShape_block:
  fixes self :: "'w IRBuilderNode"
  assumes "scopes self \<noteq> []"
    "is_DataflowScope (derived (last (scopes self)))
      \<or> is_NonDataflowScope (derived (last (scopes self)))"
    "(var_kind (match_var b) = DataflowVarNode) = is_DataflowScope (derived (last (scopes self)))"
  shows "EmitMatchShape b self = (Inr (match_var b), push_binding (MatchShapeNode b) self)"
  using assms by (cases "derived (last (scopes self))") (auto simp: EmitMatchShape_def)

lemma sint_word_of_nat:
  "n < 2 ^ 31 \<Longrightarrow> sint (word_of_nat n :: 32 word) = int n"
proof -
  assume n: "n < 2 ^ 31"
  have "sint (word_of_nat n :: 32 word) = signed_take_bit 31 (int n)"
    by (simp add: signed_of_nat)
  also have "\<dots> = int n"
    using n by (intro signed_take_bit_int_eq_self) auto
  finally show ?thesis .
qed

text \<open>
  C5. In a dataflow or non-dataflow scope, with fewer than \<open>2 ^ 31\<close> registered names and a
  pattern of fewer than \<open>2 ^ 31\<close> dimensions (the rank is an \<^verbatim>\<open>int\<close>),
  \<^verbatim>\<open>EmitMatchShape(value, pattern, name_hint)\<close> behaves by the static type of the value: for
  the shape type it binds a variable of shape type without a shape; for a tensor type it
  binds a variable whose shape is the pattern and whose type is the tensor type of rank
  \<open>length pattern\<close> with the element type of the value; for any other type it fails with
  \<open>TypeMismatchError\<close>. In the first two cases the match-shape binding of that variable is
  appended to the current scope.
\<close>

theorem EmitMatchShape_expr_refines:
  fixes self :: "'w IRBuilderNode"
  assumes "scopes self \<noteq> []"
    and "is_DataflowScope (derived (last (scopes self)))
          \<or> is_NonDataflowScope (derived (last (scopes self)))"
    and "length (name2value self) < 2 ^ 31"
    and "length pattern < 2 ^ 31"
  shows "(checked_type_of val = Some ShapeType \<longrightarrow>
            (\<exists>v. EmitMatchShape_expr val pattern hint self h
                   = ((Inr v, push_binding (MatchShapeNode (MatchShape val pattern v)) self),
                      Suc h)
                \<and> var_checked_type v = Some ShapeType \<and> var_shape v = None))
       \<and> (checked_type_of val = Some (DynTensorType r d) \<longrightarrow>
            (\<exists>v r'. EmitMatchShape_expr val pattern hint self h
                   = ((Inr v, push_binding (MatchShapeNode (MatchShape val pattern v)) self),
                      Suc h)
                \<and> var_shape v = Some (ShapeExpr pattern)
                \<and> var_checked_type v = Some (DynTensorType r' d)
                \<and> sint r' = int (length pattern)))
       \<and> (checked_type_of val = Some t \<and> t \<noteq> ShapeType \<and> (\<forall>r d. t \<noteq> DynTensorType r d) \<longrightarrow>
            EmitMatchShape_expr val pattern hint self h = ((Inl TypeMismatchError, self), Suc h))"
proof -
  from CreateScopedVar_block [OF assms(1-3), of hint h]
  obtain k i where c: "CreateScopedVar self hint h = (Inr (Var k i None None), Suc h)"
    and k: "(k = DataflowVarNode) = is_DataflowScope (derived (last (scopes self)))"
    by blast
  have em: "EmitMatchShape (MatchShape val pattern (Var k i s ty)) self
      = (Inr (Var k i s ty),
         push_binding (MatchShapeNode (MatchShape val pattern (Var k i s ty))) self)" for s ty
    using EmitMatchShape_block [OF assms(1,2), of "MatchShape val pattern (Var k i s ty)"] k
    by simp
  have A: "checked_type_of val = Some ShapeType \<longrightarrow>
            (\<exists>v. EmitMatchShape_expr val pattern hint self h
                   = ((Inr v, push_binding (MatchShapeNode (MatchShape val pattern v)) self),
                      Suc h)
                \<and> var_checked_type v = Some ShapeType \<and> var_shape v = None)"
    by (simp add: EmitMatchShape_expr_def c em)
  have B: "checked_type_of val = Some (DynTensorType r d) \<longrightarrow>
            (\<exists>v r'. EmitMatchShape_expr val pattern hint self h
                   = ((Inr v, push_binding (MatchShapeNode (MatchShape val pattern v)) self),
                      Suc h)
                \<and> var_shape v = Some (ShapeExpr pattern)
                \<and> var_checked_type v = Some (DynTensorType r' d)
                \<and> sint r' = int (length pattern))"
    using sint_word_of_nat [OF assms(4)] by (simp add: EmitMatchShape_expr_def c em)
  have C: "checked_type_of val = Some t \<and> t \<noteq> ShapeType \<and> (\<forall>r d. t \<noteq> DynTensorType r d) \<longrightarrow>
            EmitMatchShape_expr val pattern hint self h = ((Inl TypeMismatchError, self), Suc h)"
    by (cases t) (simp_all add: EmitMatchShape_expr_def c)
  from A B C show ?thesis by blast
qed

theorem EmitMatchShape_expr_refines_witness:
  "scopes dataflow_builder \<noteq> []
   \<and> (is_DataflowScope (derived (last (scopes dataflow_builder)))
       \<or> is_NonDataflowScope (derived (last (scopes dataflow_builder))))
   \<and> length (name2value dataflow_builder) < 2 ^ 31
   \<and> length [SizeVar ''n'', SizeVar ''m''] < 2 ^ 31
   \<and> checked_type_of shape_typed = Some ShapeType
   \<and> checked_type_of tensor_2d = Some (DynTensorType 2 ''float32'')
   \<and> checked_type_of object_typed = Some (OtherType ''ObjectType'')
   \<and> OtherType ''ObjectType'' \<noteq> ShapeType
   \<and> (\<forall>r d. OtherType ''ObjectType'' \<noteq> DynTensorType r d)
   \<and> (\<exists>v. fst (fst (EmitMatchShape_expr shape_typed [SizeVar ''n'', SizeVar ''m''] None
                       dataflow_builder 0)) = Inr v
          \<and> var_checked_type v = Some ShapeType \<and> var_shape v = None)
   \<and> (\<exists>v r'. fst (fst (EmitMatchShape_expr tensor_2d [SizeVar ''n'', SizeVar ''m''] None
                       dataflow_builder 0)) = Inr v
          \<and> var_shape v = Some (ShapeExpr [SizeVar ''n'', SizeVar ''m''])
          \<and> var_checked_type v = Some (DynTensorType r' ''float32'') \<and> sint r' = 2)
   \<and> fst (fst (EmitMatchShape_expr object_typed [SizeVar ''n'', SizeVar ''m''] None
                 dataflow_builder 0)) = Inl TypeMismatchError"
proof -
  have s: "scopes dataflow_builder \<noteq> []"
    and k: "is_DataflowScope (derived (last (scopes dataflow_builder)))
        \<or> is_NonDataflowScope (derived (last (scopes dataflow_builder)))"
    and n: "length (name2value dataflow_builder) < 2 ^ 31"
    and p: "length [SizeVar ''n'', SizeVar ''m''] < 2 ^ 31"
    by (simp_all add: eval_builders)
  note inst = EmitMatchShape_expr_refines [OF s k n p, where hint = None and h = 0]
  have ty_a: "checked_type_of shape_typed = Some ShapeType"
    and ty_b: "checked_type_of tensor_2d = Some (DynTensorType 2 ''float32'')"
    and ty_c: "checked_type_of object_typed = Some (OtherType ''ObjectType'')"
    by (simp_all add: shape_typed_def tensor_2d_def object_typed_def)
  from inst [where val = shape_typed and r = 2 and d = "''float32''" and t = ShapeType] ty_a
  have A: "\<exists>v. fst (fst (EmitMatchShape_expr shape_typed [SizeVar ''n'', SizeVar ''m''] None
                       dataflow_builder 0)) = Inr v
          \<and> var_checked_type v = Some ShapeType \<and> var_shape v = None"
    by fastforce
  from inst [where val = tensor_2d and r = 2 and d = "''float32''" and t = ShapeType] ty_b
  have B: "\<exists>v r'. fst (fst (EmitMatchShape_expr tensor_2d [SizeVar ''n'', SizeVar ''m''] None
                       dataflow_builder 0)) = Inr v
          \<and> var_shape v = Some (ShapeExpr [SizeVar ''n'', SizeVar ''m''])
          \<and> var_checked_type v = Some (DynTensorType r' ''float32'') \<and> sint r' = 2"
    by fastforce
  from inst [where val = object_typed and r = 2 and d = "''float32''"
      and t = "OtherType ''ObjectType''"] ty_c
  have C: "fst (fst (EmitMatchShape_expr object_typed [SizeVar ''n'', SizeVar ''m''] None
                 dataflow_builder 0)) = Inl TypeMismatchError"
    by simp
  show ?thesis
    using s k n p ty_a ty_b ty_c A B C by simp
qed


section \<open>Tuple projections\<close>

lemma Emit_block:
  fixes self :: "'w IRBuilderNode"
  assumes "scopes self \<noteq> []"
    "is_DataflowScope (derived (last (scopes self)))
      \<or> is_NonDataflowScope (derived (last (scopes self)))"
    "(var_kind (binding_var b) = DataflowVarNode)
      = is_DataflowScope (derived (last (scopes self)))"
  shows "Emit b self = record_binding b (push_binding (VarBindingNode b) self)"
  using assms by (cases "derived (last (scopes self))") (auto simp: Emit_def)

lemma project_shape_tuple:
  "var_shape rhs = Some (Expr (TupleNode ss) sa ta) \<Longrightarrow> 0 \<le> sint i
   \<Longrightarrow> sint i < int (length ss)
   \<Longrightarrow> project_shape rhs i (Var k a s t) = Inr (Var k a (Some (ss ! nat (sint i))) t)"
  by (simp add: project_shape_def array_get_def)

lemma project_shape_other:
  "\<forall>ss sa ta. var_shape rhs \<noteq> Some (Expr (TupleNode ss) sa ta)
   \<Longrightarrow> project_shape rhs i v = Inr v"
  by (auto simp: project_shape_def split: option.splits Expr.splits ExprNode.splits)

lemma project_type_tuple:
  "var_checked_type rhs = Some (TupleType ts) \<Longrightarrow> 0 \<le> sint i
   \<Longrightarrow> sint i < int (length ts)
   \<Longrightarrow> project_type rhs i (Var k a s t) = Inr (Var k a s (Some (ts ! nat (sint i))))"
  by (simp add: project_type_def array_get_def)

lemma project_type_other:
  "\<forall>ts. var_checked_type rhs \<noteq> Some (TupleType ts)
   \<Longrightarrow> project_type rhs i v = Inr v"
  by (auto simp: project_type_def split: option.splits Type.splits)

lemma Emit_expr_block:
  fixes self :: "'w IRBuilderNode"
  assumes "scopes self \<noteq> []"
    and "is_DataflowScope (derived (last (scopes self)))
          \<or> is_NonDataflowScope (derived (last (scopes self)))"
    and "length (name2value self) < 2 ^ 31"
  shows "\<exists>k a. (k = DataflowVarNode) = is_DataflowScope (derived (last (scopes self)))
     \<and> (\<forall>reg e. Emit_expr reg e hint self h =
         (case CreateVarBinding reg (Var k a None None) e of
            Inl err \<Rightarrow> ((Inl err, self), Suc h)
          | Inr b \<Rightarrow> (Emit b self, Suc h)))"
proof -
  from CreateScopedVar_block [OF assms, of hint h]
  obtain k a where c: "CreateScopedVar self hint h = (Inr (Var k a None None), Suc h)"
    and k: "(k = DataflowVarNode) = is_DataflowScope (derived (last (scopes self)))"
    by blast
  show ?thesis
    by (rule exI [of _ k], rule exI [of _ a]) (simp add: k Emit_expr_def c)
qed

text \<open>
  C9 (as amended). In a dataflow or non-dataflow scope with fewer than \<open>2 ^ 31\<close> registered
  names, \<^verbatim>\<open>Emit\<close> of a projection \<^verbatim>\<open>TupleGetItem(tuple, i)\<close> fails with a type error when the
  operand is not a variable. When the operand is a variable and \<open>i\<close> lies within every tuple
  that is the shape or the type of the operand, the emit succeeds: the bound variable
  receives the \<open>i\<close>-th field of the operand's shape when that shape is a tuple, and its shape
  is left unresolved otherwise; it receives the \<open>i\<close>-th field of the operand's type when that
  type is a tuple type, and its type is left unresolved otherwise. Nothing is said of an
  index outside a tuple that is there.
\<close>

theorem Emit_expr_projection:
  fixes self :: "'w IRBuilderNode"
  assumes "scopes self \<noteq> []"
    and "is_DataflowScope (derived (last (scopes self)))
          \<or> is_NonDataflowScope (derived (last (scopes self)))"
    and "length (name2value self) < 2 ^ 31"
  shows "(fst (fst (Emit_expr reg (Expr (TupleGetItemNode (Expr n s' t') i) s t) hint self h))
            = Inl TupleFieldTypeError)
       \<and> (var_shape rhs = Some (Expr (TupleNode ss) sa ta)
            \<and> var_checked_type rhs = Some (TupleType ts)
            \<and> 0 \<le> sint i \<and> sint i < int (length ss) \<and> sint i < int (length ts)
          \<longrightarrow> (\<exists>v. fst (fst (Emit_expr reg (Expr (TupleGetItemNode (VarExpr rhs) i) s t)
                              hint self h)) = Inr v
                 \<and> var_shape v = Some (ss ! nat (sint i))
                 \<and> var_checked_type v = Some (ts ! nat (sint i))))
       \<and> (var_shape rhs = Some (Expr (TupleNode ss) sa ta)
            \<and> (\<forall>ts. var_checked_type rhs \<noteq> Some (TupleType ts))
            \<and> 0 \<le> sint i \<and> sint i < int (length ss)
          \<longrightarrow> (\<exists>v. fst (fst (Emit_expr reg (Expr (TupleGetItemNode (VarExpr rhs) i) s t)
                              hint self h)) = Inr v
                 \<and> var_shape v = Some (ss ! nat (sint i))
                 \<and> var_checked_type v = None))
       \<and> ((\<forall>ss sa ta. var_shape rhs \<noteq> Some (Expr (TupleNode ss) sa ta))
            \<and> var_checked_type rhs = Some (TupleType ts)
            \<and> 0 \<le> sint i \<and> sint i < int (length ts)
          \<longrightarrow> (\<exists>v. fst (fst (Emit_expr reg (Expr (TupleGetItemNode (VarExpr rhs) i) s t)
                              hint self h)) = Inr v
                 \<and> var_shape v = None
                 \<and> var_checked_type v = Some (ts ! nat (sint i))))
       \<and> ((\<forall>ss sa ta. var_shape rhs \<noteq> Some (Expr (TupleNode ss) sa ta))
            \<and> (\<forall>ts. var_checked_type rhs \<noteq> Some (TupleType ts))
          \<longrightarrow> (\<exists>v. fst (fst (Emit_expr reg (Expr (TupleGetItemNode (VarExpr rhs) i) s t)
                              hint self h)) = Inr v
                 \<and> var_shape v = None \<and> var_checked_type v = None))"
proof -
  from Emit_expr_block [OF assms, of hint h]
  obtain k a where k: "(k = DataflowVarNode) = is_DataflowScope (derived (last (scopes self)))"
    and e: "\<And>reg e. Emit_expr reg e hint self h =
         (case CreateVarBinding reg (Var k a None None) e of
            Inl err \<Rightarrow> ((Inl err, self), Suc h)
          | Inr b \<Rightarrow> (Emit b self, Suc h))"
    by blast
  have em: "fst (Emit (VarBinding (Var k a sh ty) x) self) = Inr (Var k a sh ty)" for sh ty x
    using Emit_block [OF assms(1,2), of "VarBinding (Var k a sh ty) x"] k
    by (simp add: record_binding_def)
  have A: "fst (fst (Emit_expr reg (Expr (TupleGetItemNode (Expr n s' t') i) s t) hint self h))
      = Inl TupleFieldTypeError"
    by (simp add: e CreateVarBinding_def)
  have B: "\<exists>v. fst (fst (Emit_expr reg (Expr (TupleGetItemNode (VarExpr rhs) i) s t)
                              hint self h)) = Inr v
                 \<and> var_shape v = sh \<and> var_checked_type v = ty"
    if "project_shape rhs i (Var k a None None) = Inr (Var k a sh None)"
      "project_type rhs i (Var k a sh None) = Inr (Var k a sh ty)" for sh ty
    using that by (simp add: e CreateVarBinding_def em)
  show ?thesis
    using A
    by (auto intro!: B simp: project_shape_tuple project_shape_other project_type_tuple
        project_type_other)
qed

theorem Emit_expr_projection_witness:
  "scopes dataflow_builder \<noteq> []
   \<and> (is_DataflowScope (derived (last (scopes dataflow_builder)))
       \<or> is_NonDataflowScope (derived (last (scopes dataflow_builder))))
   \<and> length (name2value dataflow_builder) < 2 ^ 31
   \<and> fst (fst (Emit_expr no_inference (project tuple_of_c 0) None dataflow_builder 0))
       = Inl TupleFieldTypeError
   \<and> (\<exists>v. fst (fst (Emit_expr no_inference (project (VarExpr pair_var) 1) None
                       dataflow_builder 0)) = Inr v
          \<and> var_shape v = Some (ShapeExpr [IntImm 3])
          \<and> var_checked_type v = Some (DynTensorType 1 ''int32''))
   \<and> (\<exists>v. fst (fst (Emit_expr no_inference (project (VarExpr shape_pair_var) 1) None
                       dataflow_builder 0)) = Inr v
          \<and> var_shape v = Some (ShapeExpr [IntImm 3]) \<and> var_checked_type v = None)
   \<and> (\<exists>v. fst (fst (Emit_expr no_inference (project (VarExpr type_pair_var) 1) None
                       dataflow_builder 0)) = Inr v
          \<and> var_shape v = None \<and> var_checked_type v = Some (DynTensorType 1 ''int32''))
   \<and> (\<exists>v. fst (fst (Emit_expr no_inference (project (VarExpr global_x) 1) None
                       dataflow_builder 0)) = Inr v
          \<and> var_shape v = None \<and> var_checked_type v = None)"
proof -
  have s: "scopes dataflow_builder \<noteq> []"
    and k: "is_DataflowScope (derived (last (scopes dataflow_builder)))
        \<or> is_NonDataflowScope (derived (last (scopes dataflow_builder)))"
    and n: "length (name2value dataflow_builder) < 2 ^ 31"
    by (simp_all add: eval_builders)
  note inst = Emit_expr_projection [OF s k n, where reg = no_inference and hint = None
      and h = 0 and i = 1 and s = None and t = None and sa = None and ta = None
      and ss = "[ShapeExpr [IntImm 2], ShapeExpr [IntImm 3]]"
      and ts = "[DynTensorType 1 ''float32'', DynTensorType 1 ''int32'']"
      and n = "TupleNode [const_c]" and s' = None and t' = None]
  have A: "fst (fst (Emit_expr no_inference (project tuple_of_c 0) None dataflow_builder 0))
       = Inl TupleFieldTypeError"
    using Emit_expr_projection [OF s k n, where reg = no_inference and hint = None
      and h = 0 and i = 0 and s = None and t = None
      and n = "TupleNode [const_c]" and s' = None and t' = None]
    by (simp add: project_def tuple_of_c_def)
  have B: "\<exists>v. fst (fst (Emit_expr no_inference (project (VarExpr pair_var) 1) None
                       dataflow_builder 0)) = Inr v
          \<and> var_shape v = Some (ShapeExpr [IntImm 3])
          \<and> var_checked_type v = Some (DynTensorType 1 ''int32'')"
    using inst [where rhs = pair_var] by (simp add: project_def pair_var_def)
  have C: "\<exists>v. fst (fst (Emit_expr no_inference (project (VarExpr shape_pair_var) 1) None
                       dataflow_builder 0)) = Inr v
          \<and> var_shape v = Some (ShapeExpr [IntImm 3]) \<and> var_checked_type v = None"
    using inst [where rhs = shape_pair_var] by (simp add: project_def shape_pair_var_def)
  have D: "\<exists>v. fst (fst (Emit_expr no_inference (project (VarExpr type_pair_var) 1) None
                       dataflow_builder 0)) = Inr v
          \<and> var_shape v = None \<and> var_checked_type v = Some (DynTensorType 1 ''int32'')"
    using inst [where rhs = type_pair_var] by (simp add: project_def type_pair_var_def)
  have E: "\<exists>v. fst (fst (Emit_expr no_inference (project (VarExpr global_x) 1) None
                       dataflow_builder 0)) = Inr v
          \<and> var_shape v = None \<and> var_checked_type v = None"
    using inst [where rhs = global_x] by (simp add: project_def global_x_def)
  show ?thesis using s k n A B C D E by simp
qed

text \<open>
  C9 as stated fails: the operand \<open>tuple_of_c\<close> is a tuple expression, not a variable, and
  the emit of its projection does not succeed with an unresolved variable; it fails and
  binds nothing.
\<close>

theorem Emit_expr_projection_counterexample:
  "Emit_expr no_inference (project tuple_of_c 0) None dataflow_builder 0
     = ((Inl TupleFieldTypeError, dataflow_builder), 1)"
  by (simp add: Emit_expr_def CreateScopedVar_def CreateVarBinding_def project_def
      tuple_of_c_def eval_builders eval_names)


text \<open>
  An index within the shape tuple and outside the type tuple: with the bounds check of
  \<^verbatim>\<open>Array::operator[]\<close> as taken above, the second \<^verbatim>\<open>fields[i]\<close> fails and nothing is bound.
\<close>

lemma Emit_expr_projection_outside:
  "Emit_expr no_inference (project (VarExpr short_type_pair_var) 1) None dataflow_builder 0
     = ((Inl IndexOutOfBoundsError, dataflow_builder), 1)"
  by (simp add: Emit_expr_def CreateScopedVar_def CreateVarBinding_def project_def
      project_shape_def project_type_def array_get_def short_type_pair_var_def
      eval_builders eval_names)

section \<open>Output bindings\<close>

text \<open>The form of \<^verbatim>\<open>EmitOutput\<close> that creates the binding succeeds in no builder.\<close>

lemma EmitOutput_expr_fails:
  fixes self :: "'w IRBuilderNode"
  shows "fst (fst (EmitOutput_expr reg output hint self h)) \<noteq> Inr v"
proof -
  have cvb: "CreateVarBinding reg (Var VarNode a None None) output = Inr b
      \<Longrightarrow> var_kind (binding_var b) = VarNode" for a b
    by (auto simp: CreateVarBinding_def project_shape_def project_type_def Let_def
        split: Expr.splits ExprNode.splits sum.splits option.splits Type.splits)
  show ?thesis
    by (auto simp: EmitOutput_expr_def Emit_def dest!: cvb
        split: ScopeNode.splits sum.splits)
qed

text \<open>
  C1, the code at a failing input. In a dataflow scope, after \<open>y\<close> has been emitted as a local
  variable, \<^verbatim>\<open>EmitOutput(y, NullOpt)\<close> fails with \<open>ScopeDisciplineError\<close> and leaves the builder
  as it is: the form that creates the binding makes a global variable and hands it to
  \<^verbatim>\<open>Emit\<close>, which rejects global variables in a dataflow scope. \<^verbatim>\<open>EmitOutput\<close> on a binding of
  the local variable \<open>y\<close> succeeds and returns \<open>y\<close> itself, a local variable under its old
  name, not a global variable under a fresh one.
\<close>

theorem EmitOutput_on_emitted_var:
  "fst (Emit (VarBinding local_y const_c) dataflow_builder) = Inr local_y
   \<and> EmitOutput_expr no_inference (VarExpr local_y) None
        (snd (Emit (VarBinding local_y const_c) dataflow_builder)) 0
       = ((Inl ScopeDisciplineError, snd (Emit (VarBinding local_y const_c) dataflow_builder)),
          1)
   \<and> fst (EmitOutput (VarBinding local_y const_c) dataflow_builder) = Inr local_y
   \<and> var_kind local_y = DataflowVarNode
   \<and> id_name_hint (vid local_y) = ''y''"
  by (simp add: Emit_def EmitOutput_def EmitOutput_expr_def CreateVarBinding_def
      record_binding_def push_binding_def local_y_def eval_builders eval_names)


section \<open>Operator calls\<close>

text \<open>
  What \<^verbatim>\<open>Emit\<close> does on a call in a block scope: the bound variable receives what
  \<^verbatim>\<open>InferShape\<close> and \<^verbatim>\<open>InferType\<close> return, and the binding holds the call as it was given.
\<close>

lemma Emit_expr_call:
  fixes self :: "'w IRBuilderNode"
  assumes "scopes self \<noteq> []"
    and "is_DataflowScope (derived (last (scopes self)))
          \<or> is_NonDataflowScope (derived (last (scopes self)))"
    and "length (name2value self) < 2 ^ 31"
  shows "\<exists>v. Emit_expr reg (Expr (CallNode op args) s t) hint self h
             = (record_binding (VarBinding v (Expr (CallNode op args) s t))
                  (push_binding (VarBindingNode (VarBinding v (Expr (CallNode op args) s t)))
                     self),
                Suc h)
           \<and> var_shape v = InferShape reg (Expr (CallNode op args) s t)
           \<and> var_checked_type v = InferType reg (Expr (CallNode op args) s t)"
proof -
  from Emit_expr_block [OF assms, of hint h]
  obtain k a where k: "(k = DataflowVarNode) = is_DataflowScope (derived (last (scopes self)))"
    and e: "\<And>reg e. Emit_expr reg e hint self h =
         (case CreateVarBinding reg (Var k a None None) e of
            Inl err \<Rightarrow> ((Inl err, self), Suc h)
          | Inr b \<Rightarrow> (Emit b self, Suc h))"
    by blast
  let ?call = "Expr (CallNode op args) s t"
  let ?v = "Var k a (InferShape reg ?call) (InferType reg ?call)"
  have c: "CreateVarBinding reg (Var k a None None) ?call = Inr (VarBinding ?v ?call)"
    by (simp add: CreateVarBinding_def Let_def)
  have "Emit (VarBinding ?v ?call) self
      = record_binding (VarBinding ?v ?call) (push_binding (VarBindingNode (VarBinding ?v ?call)) self)"
    using k by (intro Emit_block [OF assms(1,2)]) simp
  then show ?thesis
    by (intro exI [of _ ?v]) (simp add: e c)
qed

text \<open>A call that carries no shape and no type, to an operator without registered
  inference functions (or to something that is not an operator), infers nothing.\<close>

lemma Infer_unregistered:
  "(\<forall>name. call_op_name (Expr (CallNode op args) None None) = Some name
       \<longrightarrow> FInferShape reg name = None \<and> FInferType reg name = None)
   \<Longrightarrow> InferShape reg (Expr (CallNode op args) None None) = None
     \<and> InferType reg (Expr (CallNode op args) None None) = None"
  by (auto simp: InferShape_def InferType_def split: option.splits)

text \<open>
  C4, the code at a failing input. The operator \<open>add\<close> has a shape and a type inference
  function registered; the call carries neither a shape nor a type. \<^verbatim>\<open>Emit\<close> succeeds and the
  bound variable receives the inferred shape and type, but the call recorded in the binding
  and in \<^verbatim>\<open>id2bind\<close> is the call as it was given, without shape and type: the copy that
  received them is dropped.
\<close>

theorem Emit_expr_call_not_cached:
  "Emit_expr add_inference add_call None dataflow_builder 0
     = ((Inr (Var DataflowVarNode (Id 0 ''lv0'') (Some (ShapeExpr [IntImm 2]))
               (Some (DynTensorType 1 ''float32''))),
         \<lparr>scopes = [\<lparr>vars = [], callbacks = [],
                     derived = DataflowScopeNode
                       [VarBindingNode
                          (VarBinding
                             (Var DataflowVarNode (Id 0 ''lv0'') (Some (ShapeExpr [IntImm 2]))
                                (Some (DynTensorType 1 ''float32'')))
                             add_call)]\<rparr>],
           name2value = [],
           id2bind = [(Id 0 ''lv0'', add_call)]\<rparr>),
        1)
   \<and> expr_shape add_call = None \<and> expr_checked_type add_call = None"
  by (simp add: Emit_expr_def CreateScopedVar_def CreateVarBinding_def Emit_def InferShape_def
      InferType_def record_binding_def push_binding_def add_inference_def add_call_def
      eval_builders eval_names)

section \<open>The symbol table of a module\<close>

lemma update_fresh: "k \<notin> fst ` set al \<Longrightarrow> AList.update k v al = al @ [(k, v)]"
  by (induction al) auto

lemma structural_find_None:
  "(structural_find sm f = None)
     = (func_content f \<notin> (\<lambda>(g, gv). func_content g) ` set sm)"
  by (induction sm) (auto simp: StructuralEqual_def split: if_splits)

lemma structural_find_Some:
  "structural_find sm f = Some gv
   \<Longrightarrow> \<exists>g. (g, gv) \<in> set sm \<and> StructuralEqual g f"
  by (induction sm) (auto split: if_splits)

lemma structural_find_append:
  "structural_find (sm @ [(g, gv)]) f =
     (case structural_find sm f of
        Some gv' \<Rightarrow> Some gv'
      | None \<Rightarrow> if StructuralEqual g f then Some gv else None)"
  by (induction sm) auto

lemma module_inv_empty: "module_inv h empty_module"
  by (simp add: module_inv_def empty_module_def)

lemma module_inv_mono: "module_inv h self \<Longrightarrow> h \<le> h' \<Longrightarrow> module_inv h' self"
  by (fastforce simp: module_inv_def)

lemma Add_found:
  "structural_find (structural_map self) f = Some gv \<Longrightarrow> Add h n f self = (gv, self, h)"
  by (simp add: Add_def)

lemma Add_new:
  "structural_find (structural_map self) f = None \<Longrightarrow> module_inv h self
   \<Longrightarrow> Add h n f self =
        (GlobalVar h n,
         self\<lparr>structural_map := structural_map self @ [(f, GlobalVar h n)],
              func_map := func_map self @ [(GlobalVar h n, f)]\<rparr>,
         Suc h)"
proof -
  assume none: "structural_find (structural_map self) f = None" and inv: "module_inv h self"
  have "GlobalVar h n \<notin> fst ` set (func_map self)"
    using inv by (fastforce simp: module_inv_def)
  then have "AList.update (GlobalVar h n) f (func_map self) = func_map self @ [(GlobalVar h n, f)]"
    by (rule update_fresh)
  with none show ?thesis by (simp add: Add_def Let_def)
qed

lemma module_inv_Add:
  assumes inv: "module_inv h self" and add: "Add h n f self = (gv, self', h')"
  shows "module_inv h' self'"
proof (cases "structural_find (structural_map self) f")
  case (Some gv')
  with add inv show ?thesis by (simp add: Add_found)
next
  case None
  from Add_new [OF None inv, of n] add
  have s: "self' = self\<lparr>structural_map := structural_map self @ [(f, GlobalVar h n)],
              func_map := func_map self @ [(GlobalVar h n, f)]\<rparr>" and h: "h' = Suc h"
    by simp_all
  from None have fresh: "func_content f \<notin> (\<lambda>(g, gv). func_content g) ` set (structural_map self)"
    by (simp add: structural_find_None)
  have new: "GlobalVar h n \<notin> snd ` set (structural_map self)"
    using inv by (fastforce simp: module_inv_def)
  show ?thesis
    using inv fresh new unfolding s h module_inv_def by (auto simp: less_Suc_eq)
qed

lemma module_inv_Add_all:
  "module_inv h self \<Longrightarrow> Add_all prior (self, h) = (self', h') \<Longrightarrow> module_inv h' self'"
proof (induction prior arbitrary: self h)
  case Nil
  then show ?case by simp
next
  case (Cons a prior)
  obtain k n f where a: "a = (k, n, f)" by (cases a) auto
  obtain gv self1 h1 where add: "Add (h + k) n f self = (gv, self1, h1)"
    by (metis prod.exhaust)
  have "module_inv (h + k) self" using Cons.prems(1) by (rule module_inv_mono) simp
  from module_inv_Add [OF this add] have i1: "module_inv h1 self1" .
  from Cons.prems(2) a add have "Add_all prior (self1, h1) = (self', h')" by simp
  from Cons.IH [OF i1 this] show ?case .
qed

lemma count_distinct:
  "distinct (map c xs) \<Longrightarrow> length (filter (\<lambda>x. c x = a) xs) = (if a \<in> c ` set xs then 1 else 0)"
  by (induction xs) (auto simp: image_iff)

lemma entries_for_inv:
  assumes "module_inv h self"
  shows "entries_for f self
     = (if func_content f \<in> (\<lambda>(g, gv). func_content g) ` set (structural_map self) then 1 else 0)"
proof -
  let ?c = "\<lambda>(g, gv :: GlobalVar). func_content g"
  have "entries_for f self
      = length (filter (\<lambda>x. ?c x = func_content f) (structural_map self))"
    using assms
    by (simp add: entries_for_def module_inv_def filter_map comp_def StructuralEqual_def
        case_prod_unfold)
  also have "\<dots> = (if func_content f \<in> ?c ` set (structural_map self) then 1 else 0)"
    using assms by (intro count_distinct) (simp add: module_inv_def)
  finally show ?thesis .
qed

text \<open>After \<^verbatim>\<open>Add\<close>, the function is in the table under the returned symbol.\<close>

lemma Add_registered:
  assumes inv: "module_inv h self" and add: "Add h n f self = (gv, self', h')"
  shows "structural_find (structural_map self') f = Some gv"
    and "\<exists>g. (gv, g) \<in> set (func_map self') \<and> StructuralEqual g f"
    and "gv_addr gv < h'"
    and "set (func_map self) \<subseteq> set (func_map self')"
proof -
  show "structural_find (structural_map self') f = Some gv"
  proof (cases "structural_find (structural_map self) f")
    case (Some gv')
    with add show ?thesis by (simp add: Add_found)
  next
    case None
    with Add_new [OF None inv, of n] add show ?thesis
      by (auto simp: structural_find_append StructuralEqual_def)
  qed
  show "\<exists>g. (gv, g) \<in> set (func_map self') \<and> StructuralEqual g f"
  proof (cases "structural_find (structural_map self) f")
    case (Some gv')
    from structural_find_Some [OF Some] obtain g where
      "(g, gv') \<in> set (structural_map self)" "StructuralEqual g f" by blast
    moreover have "func_map self = map (\<lambda>(f, gv). (gv, f)) (structural_map self)"
      using inv by (simp add: module_inv_def)
    ultimately have "(gv', g) \<in> set (func_map self)" by force
    with Some add \<open>StructuralEqual g f\<close> show ?thesis by (auto simp: Add_found)
  next
    case None
    with Add_new [OF None inv, of n] add show ?thesis
      by (auto simp: StructuralEqual_def)
  qed
  show "gv_addr gv < h'"
  proof (cases "structural_find (structural_map self) f")
    case (Some gv')
    from structural_find_Some [OF Some] inv Some add show ?thesis
      by (fastforce simp: Add_found module_inv_def)
  next
    case None
    with Add_new [OF None inv, of n] add show ?thesis by auto
  qed
  show "set (func_map self) \<subseteq> set (func_map self')"
  proof (cases "structural_find (structural_map self) f")
    case (Some gv')
    with add show ?thesis by (simp add: Add_found)
  next
    case None
    with Add_new [OF None inv, of n] add show ?thesis by auto
  qed
qed


lemma structural_find_cong:
  "StructuralEqual f g \<Longrightarrow> structural_find sm f = structural_find sm g"
  by (induction sm) (auto simp: StructuralEqual_def)

lemma distinct_snd_unique:
  "distinct (map snd xs) \<Longrightarrow> (a, c) \<in> set xs \<Longrightarrow> (b, c) \<in> set xs \<Longrightarrow> a = b"
  by (induction xs) (auto simp: image_iff)

lemma Add_structural_map_mono:
  "Add h n f self = (gv, self', h')
   \<Longrightarrow> set (structural_map self) \<subseteq> set (structural_map self')"
  by (auto simp: Add_def Let_def split: option.splits)

text \<open>
  C3. Take a symbol table that \<^verbatim>\<open>Add\<close> has built from the empty one, and two further calls of
  \<^verbatim>\<open>Add\<close> on it. If the two functions are structurally equal, whatever their name hints,
  the second call returns the symbol of the first and leaves the table as it is, and the
  table holds exactly one entry for the function. If they are structurally distinct, the
  two symbols differ and the table holds exactly one entry for each. Either way each
  symbol is bound in the table to a function structurally equal to the one that was added,
  and from the empty table the two calls leave one entry in the first case and two in the
  second.
\<close>

theorem Add_deduplicates:
  assumes prior: "Add_all prior (empty_module, h0) = (self, h)"
    and first: "Add (h + ka) na fa self = (ga, sa, ha)"
    and second: "Add (ha + kb) nb fb sa = (gb, sb, hb)"
  shows "(StructuralEqual fa fb \<longrightarrow> gb = ga \<and> sb = sa \<and> entries_for fa sb = 1)
       \<and> (\<not> StructuralEqual fa fb \<longrightarrow>
            gb \<noteq> ga \<and> entries_for fa sb = 1 \<and> entries_for fb sb = 1)
       \<and> (\<exists>g. (ga, g) \<in> set (func_map sb) \<and> StructuralEqual g fa)
       \<and> (\<exists>g. (gb, g) \<in> set (func_map sb) \<and> StructuralEqual g fb)
       \<and> (prior = [] \<longrightarrow> length (func_map sb) = (if StructuralEqual fa fb then 1 else 2))"
proof -
  have inv0: "module_inv (h + ka) self"
    using module_inv_Add_all [OF module_inv_empty prior] by (rule module_inv_mono) simp
  from module_inv_Add [OF inv0 first] have inv_a: "module_inv ha sa" .
  then have inv_a': "module_inv (ha + kb) sa" by (rule module_inv_mono) simp
  from module_inv_Add [OF inv_a' second] have inv_b: "module_inv hb sb" .
  note ra = Add_registered [OF inv0 first]
  note rb = Add_registered [OF inv_a' second]
  have in_a: "func_content fa \<in> (\<lambda>(g, gv). func_content g) ` set (structural_map sa)"
    using ra(1) structural_find_None [of "structural_map sa" fa] by simp
  have in_b: "func_content fb \<in> (\<lambda>(g, gv). func_content g) ` set (structural_map sb)"
    using rb(1) structural_find_None [of "structural_map sb" fb] by simp
  have in_ab: "func_content fa \<in> (\<lambda>(g, gv). func_content g) ` set (structural_map sb)"
    using in_a Add_structural_map_mono [OF second] by (meson image_mono subsetD)
  have A: "gb = ga \<and> sb = sa \<and> entries_for fa sb = 1" if eq: "StructuralEqual fa fb"
  proof -
    from structural_find_cong [OF eq, of "structural_map sa"] ra(1)
    have "structural_find (structural_map sa) fb = Some ga" by simp
    from Add_found [OF this, of "ha + kb" nb] second
    have "gb = ga" "sb = sa" by simp_all
    with entries_for_inv [OF inv_a, of fa] in_a show ?thesis by simp
  qed
  have B: "gb \<noteq> ga \<and> entries_for fa sb = 1 \<and> entries_for fb sb = 1"
    if ne: "\<not> StructuralEqual fa fb"
  proof -
    have "gb \<noteq> ga"
    proof (cases "structural_find (structural_map sa) fb")
      case None
      from Add_new [OF None inv_a', of nb] second have "gv_addr gb = ha + kb" by auto
      with ra(3) show ?thesis by auto
    next
      case (Some gv')
      from Add_found [OF Some, of "ha + kb" nb] second have gb: "gb = gv'" by simp
      from structural_find_Some [OF Some] obtain g where
        g: "(g, gv') \<in> set (structural_map sa)" "StructuralEqual g fb" by blast
      from structural_find_Some [OF ra(1)] obtain g' where
        g': "(g', ga) \<in> set (structural_map sa)" "StructuralEqual g' fa" by blast
      show ?thesis
      proof
        assume "gb = ga"
        with gb g have "(g, ga) \<in> set (structural_map sa)" by simp
        with g'(1) inv_a have "g = g'"
          by (auto simp: module_inv_def dest: distinct_snd_unique)
        with g(2) g'(2) ne show False by (simp add: StructuralEqual_def)
      qed
    qed
    with entries_for_inv [OF inv_b, of fa] entries_for_inv [OF inv_b, of fb] in_ab in_b
    show ?thesis by simp
  qed
  have C: "\<exists>g. (ga, g) \<in> set (func_map sb) \<and> StructuralEqual g fa"
    using ra(2) rb(4) by blast
  have D: "length (func_map sb) = (if StructuralEqual fa fb then 1 else 2)" if "prior = []"
  proof -
    from prior that have "self = empty_module" by simp
    with first have sa: "sa = \<lparr>func_map = [(GlobalVar (h + ka) na, fa)],
        structural_map = [(fa, GlobalVar (h + ka) na)]\<rparr>" and "ha = Suc (h + ka)"
      by (auto simp add: Add_def Let_def empty_module_def)
    with second show ?thesis
      by (auto simp: Add_def Let_def split: if_splits)
  qed
  from A B C D rb(2) show ?thesis by blast
qed

theorem Add_deduplicates_witness:
  "Add_all [] (empty_module, 0) = (empty_module, 0)
   \<and> StructuralEqual func_f func_f_again \<and> \<not> StructuralEqual func_f func_g
   \<and> Add 0 ''f'' func_f empty_module
       = (GlobalVar 0 ''f'',
          \<lparr>func_map = [(GlobalVar 0 ''f'', func_f)],
            structural_map = [(func_f, GlobalVar 0 ''f'')]\<rparr>, 1)
   \<and> fst (Add 1 ''g'' func_f_again (fst (snd (Add 0 ''f'' func_f empty_module))))
       = GlobalVar 0 ''f''
   \<and> entries_for func_f
        (fst (snd (Add 1 ''g'' func_f_again (fst (snd (Add 0 ''f'' func_f empty_module)))))) = 1
   \<and> length (func_map
        (fst (snd (Add 1 ''g'' func_f_again (fst (snd (Add 0 ''f'' func_f empty_module))))))) = 1
   \<and> fst (Add 1 ''f'' func_g (fst (snd (Add 0 ''f'' func_f empty_module))))
       \<noteq> GlobalVar 0 ''f''
   \<and> length (func_map
        (fst (snd (Add 1 ''f'' func_g (fst (snd (Add 0 ''f'' func_f empty_module))))))) = 2"
proof -
  have p: "Add_all [] (empty_module, 0) = (empty_module, 0)" by simp
  have e: "StructuralEqual func_f func_f_again" and n: "\<not> StructuralEqual func_f func_g"
    by (simp_all add: StructuralEqual_def func_f_def func_f_again_def func_g_def)
  have a: "Add (0 + 0) ''f'' func_f empty_module
       = (GlobalVar 0 ''f'',
          \<lparr>func_map = [(GlobalVar 0 ''f'', func_f)],
            structural_map = [(func_f, GlobalVar 0 ''f'')]\<rparr>, 1)"
    by (simp add: Add_def Let_def empty_module_def)
  let ?sa = "\<lparr>func_map = [(GlobalVar 0 ''f'', func_f)],
            structural_map = [(func_f, GlobalVar 0 ''f'')]\<rparr>"
  have b: "Add (1 + 0) nb fb ?sa
      = (fst (Add 1 nb fb ?sa), fst (snd (Add 1 nb fb ?sa)), snd (snd (Add 1 nb fb ?sa)))"
    for nb fb by simp
  from Add_deduplicates [OF p a b, where nb = "''g''" and fb = func_f_again] e
  have A: "fst (Add 1 ''g'' func_f_again ?sa) = GlobalVar 0 ''f''
      \<and> entries_for func_f (fst (snd (Add 1 ''g'' func_f_again ?sa))) = 1
      \<and> length (func_map (fst (snd (Add 1 ''g'' func_f_again ?sa)))) = 1"
    by auto
  from Add_deduplicates [OF p a b, where nb = "''f''" and fb = func_g] n
  have B: "fst (Add 1 ''f'' func_g ?sa) \<noteq> GlobalVar 0 ''f''
      \<and> length (func_map (fst (snd (Add 1 ''f'' func_g ?sa)))) = 2"
    by auto
  from a have a': "Add 0 ''f'' func_f empty_module = (GlobalVar 0 ''f'', ?sa, 1)" by simp
  show ?thesis using p e n A B unfolding a' by simp
qed

section \<open>Matched pushes and pops\<close>

lemma erase_names_filter:
  "erase_names names n2v = filter (\<lambda>(name, v). name \<notin> set names) n2v"
proof (induction names arbitrary: n2v)
  case Nil
  then show ?case by simp
next
  case (Cons a names)
  show ?case
    by (simp add: Cons.IH AList.delete_eq case_prod_unfold) metis
qed

lemma run_callbacks_foldl:
  "run_callbacks cbs n2v w = foldl (\<lambda>w cb. cb n2v w) w cbs"
  by (induction cbs arbitrary: w) simp_all

lemma AddVar_at_top:
  "scs \<noteq> [] \<Longrightarrow> AddVar_at [length scs - 1] name scs = butlast scs @ [AddVar name (last scs)]"
proof (induction scs rule: rev_induct)
  case Nil
  then show ?case by simp
next
  case (snoc s scs)
  have "map (\<lambda>i. if i = length scs then AddVar name ((scs @ [s]) ! i) else (scs @ [s]) ! i)
          [0..<length scs] = map (\<lambda>i. scs ! i) [0..<length scs]"
    by (rule map_cong) (simp_all add: nth_append)
  also have "\<dots> = scs" by (rule map_nth)
  finally show ?case by (simp add: AddVar_at_def)
qed

lemma grows_refl: "grows m m"
proof -
  have "scopes m \<noteq> [] \<Longrightarrow>
      scopes m = butlast (scopes m) @
        [(last (scopes m))\<lparr>vars := vars (last (scopes m)) @ map fst ([] :: NameTable),
                           callbacks := callbacks (last (scopes m))\<rparr>]"
    by simp
  then show ?thesis
    unfolding grows_def
    by (intro exI [of _ "[]"] exI [of _ "callbacks (last (scopes m))"]) auto
qed

lemma grows_trans:
  assumes "grows m ma" "grows ma mb"
  shows "grows m mb"
proof -
  from assms(1) obtain added cbs where
    n: "name2value ma = name2value m @ added"
    and d: "fst ` set added \<inter> fst ` set (name2value m) = {}"
    and s: "if scopes m = [] then scopes ma = [] \<and> added = []
           else scopes ma = butlast (scopes m) @
                  [(last (scopes m))\<lparr>vars := vars (last (scopes m)) @ map fst added,
                                     callbacks := cbs\<rparr>]"
    unfolding grows_def by blast
  from assms(2) obtain added' cbs' where
    n': "name2value mb = name2value ma @ added'"
    and d': "fst ` set added' \<inter> fst ` set (name2value ma) = {}"
    and s': "if scopes ma = [] then scopes mb = [] \<and> added' = []
           else scopes mb = butlast (scopes ma) @
                  [(last (scopes ma))\<lparr>vars := vars (last (scopes ma)) @ map fst added',
                                      callbacks := cbs'\<rparr>]"
    unfolding grows_def by blast
  have N: "name2value mb = name2value m @ (added @ added')" using n n' by simp
  have D: "fst ` set (added @ added') \<inter> fst ` set (name2value m) = {}"
    using d d' n by auto
  have S: "if scopes m = [] then scopes mb = [] \<and> added @ added' = []
           else scopes mb = butlast (scopes m) @
                  [(last (scopes m))\<lparr>vars := vars (last (scopes m)) @ map fst (added @ added'),
                                     callbacks := cbs'\<rparr>]"
  proof (cases "scopes m = []")
    case True
    with s s' show ?thesis by simp
  next
    case False
    with s have sa: "scopes ma = butlast (scopes m) @
                  [(last (scopes m))\<lparr>vars := vars (last (scopes m)) @ map fst added,
                                     callbacks := cbs\<rparr>]" by simp
    then have "scopes ma \<noteq> []" by simp
    with s' have "scopes mb = butlast (scopes ma) @
                  [(last (scopes ma))\<lparr>vars := vars (last (scopes ma)) @ map fst added',
                                      callbacks := cbs'\<rparr>]" by simp
    with sa False show ?thesis by simp
  qed
  from N D S show ?thesis unfolding grows_def by blast
qed

lemma AddVars_grows:
  fixes m :: "'w ScopeManagerNode"
  assumes "scopes m \<noteq> []" "AddVars name val [length (scopes m) - 1] m = Inr m'"
  shows "grows m m'"
proof -
  from assms(2) have fresh: "name \<notin> fst ` set (name2value m)"
    by (auto simp: AddVars_def map_of_eq_None_iff split: if_splits)
  from assms(2) have m': "m' = m\<lparr>name2value := AList.update name val (name2value m),
      scopes := AddVar_at [length (scopes m) - 1] name (scopes m)\<rparr>"
    by (auto simp: AddVars_def split: if_splits)
  have n: "name2value m' = name2value m @ [(name, val)]"
    using fresh by (simp add: m' update_fresh)
  have s: "scopes m' = butlast (scopes m) @
      [(last (scopes m))\<lparr>vars := vars (last (scopes m)) @ map fst [(name, val)],
                         callbacks := callbacks (last (scopes m))\<rparr>]"
    using AddVar_at_top [OF assms(1), of name] by (simp add: m' AddVar_def)
  show ?thesis
    unfolding grows_def
    using n s fresh assms(1)
    by (intro exI [of _ "[(name, val)]"] exI [of _ "callbacks (last (scopes m))"]) auto
qed

lemma Attach_grows:
  fixes m :: "'w ScopeManagerNode"
  assumes "scopes m \<noteq> []"
  shows "grows m (m\<lparr>scopes := butlast (scopes m) @ [AddCallback cb (last (scopes m))]\<rparr>)"
  unfolding grows_def
  using assms
  by (intro exI [of _ "[]"] exI [of _ "callbacks (last (scopes m)) @ [cb]"])
    (auto simp: AddCallback_def)

text \<open>The pop that closes a block undoes what the block has left behind.\<close>

lemma pop_after_growth:
  fixes m :: "'w ScopeManagerNode"
  assumes g: "grows (snd (PushScope (new_scope d) m)) ma"
    and p: "PopScope ma wa = Inr (scope, mb, wb)"
  shows "name2value mb = name2value m \<and> scopes mb = scopes m"
proof -
  from g obtain added cbs where
    n: "name2value ma = name2value m @ added"
    and dj: "fst ` set added \<inter> fst ` set (name2value m) = {}"
    and s: "scopes ma = scopes m @ [\<lparr>vars = map fst added, callbacks = cbs, derived = d\<rparr>]"
    unfolding grows_def by (auto simp: PushScope_def new_scope_def)
  have keep: "filter (\<lambda>(name, v). name \<notin> fst ` set added) (name2value m) = name2value m"
  proof (rule filter_True, rule ballI)
    fix x
    assume "x \<in> set (name2value m)"
    then have "fst x \<in> fst ` set (name2value m)" by simp
    with dj have "fst x \<notin> fst ` set added" by blast
    then show "case x of (name, v) \<Rightarrow> name \<notin> fst ` set added"
      by (simp add: case_prod_unfold)
  qed
  have drop: "filter (\<lambda>(name, v). name \<notin> fst ` set added) added = []"
  proof (rule filter_False, rule ballI)
    fix x
    assume "x \<in> set added"
    then have "fst x \<in> fst ` set added" by simp
    then show "\<not> (case x of (name, v) \<Rightarrow> name \<notin> fst ` set added)"
      by (simp add: case_prod_unfold)
  qed
  from s have ne: "scopes ma \<noteq> []" by simp
  from s have l: "last (scopes ma) = \<lparr>vars = map fst added, callbacks = cbs, derived = d\<rparr>"
    and bl: "butlast (scopes ma) = scopes m"
    by simp_all
  from p ne have mb: "mb = ma\<lparr>scopes := butlast (scopes ma),
      name2value := erase_names (vars (last (scopes ma))) (name2value ma)\<rparr>"
    by (auto simp add: PopScope_def Let_def)
  show ?thesis
    unfolding mb by (simp add: l bl n erase_names_filter keep drop)
qed

lemma run_actions_grows:
  fixes m :: "'w ScopeManagerNode"
  assumes "\<And>a m w m' w'. a \<in> set acts \<Longrightarrow> run_action a (m, w) = Inr (m', w') \<Longrightarrow> grows m m'"
    and "run_actions acts (m, w) = Inr (m', w')"
  shows "grows m m'"
  using assms
proof (induction acts arbitrary: m w)
  case Nil
  then show ?case by (simp add: grows_refl)
next
  case (Cons a acts)
  from Cons.prems(2) obtain ma wa where
    a: "run_action a (m, w) = Inr (ma, wa)" and r: "run_actions acts (ma, wa) = Inr (m', w')"
    by (auto split: sum.splits)
  from Cons.prems(1) [OF _ a] have g: "grows m ma" by simp
  have "grows ma m'"
  proof (rule Cons.IH [OF _ r])
    fix b mb wb mc wc
    assume "b \<in> set acts" "run_action b (mb, wb) = Inr (mc, wc)"
    then show "grows mb mc" using Cons.prems(1) [of b mb wb mc wc] by simp
  qed
  with g show ?case by (rule grows_trans)
qed

lemma run_action_grows:
  fixes m :: "'w ScopeManagerNode"
  shows "run_action a (m, w) = Inr (m', w') \<Longrightarrow> grows m m'"
proof (induction a arbitrary: m w m' w')
  case (Register name val)
  then show ?case
    by (auto simp: AddVars_grows split: if_splits sum.splits)
next
  case (Attach cb)
  then show ?case
    by (auto simp: Attach_grows split: if_splits)
next
  case (Block d acts)
  from Block.prems obtain ma wa scope where
    r: "run_actions acts (snd (PushScope (new_scope d) m), w) = Inr (ma, wa)"
    and p: "PopScope ma wa = Inr (scope, m', w')"
    by (auto split: sum.splits)
  have "grows (snd (PushScope (new_scope d) m)) ma"
  proof (rule run_actions_grows [OF _ r])
    fix b mb wb mc wc
    assume "b \<in> set acts" "run_action b (mb, wb) = Inr (mc, wc)"
    then show "grows mb mc" by (rule Block.IH)
  qed
  from pop_after_growth [OF this p]
  have e: "name2value m' = name2value m" "scopes m' = scopes m" by simp_all
  have "scopes m \<noteq> [] \<Longrightarrow>
      scopes m = butlast (scopes m) @
        [(last (scopes m))\<lparr>vars := vars (last (scopes m)) @ map fst ([] :: NameTable),
                           callbacks := callbacks (last (scopes m))\<rparr>]"
    by simp
  then show ?case
    unfolding grows_def using e
    by (intro exI [of _ "[]"] exI [of _ "callbacks (last (scopes m))"]) auto
qed

text \<open>One scope object pushed twice: the name registered in it shows at both positions,
  and after the pop the scope that stays on the stack still lists the released name.\<close>

lemma AddVars_shared_scope:
  "AddVars ''a'' (ObjectRef 1) [0, 1]
     \<lparr>scopes = [BaseScope_new, BaseScope_new] :: unit BaseScope list, name2value = []\<rparr>
     = Inr \<lparr>scopes = [AddVar ''a'' BaseScope_new, AddVar ''a'' BaseScope_new],
            name2value = [(''a'', ObjectRef 1)]\<rparr>
   \<and> PopScope
        \<lparr>scopes = [AddVar ''a'' BaseScope_new, AddVar ''a'' BaseScope_new] :: unit BaseScope list,
          name2value = [(''a'', ObjectRef 1)]\<rparr> ()
     = Inr (AddVar ''a'' BaseScope_new,
            \<lparr>scopes = [AddVar ''a'' BaseScope_new], name2value = []\<rparr>, ())"
  by (simp add: AddVars_def AddVar_at_def PopScope_def AddVar_def BaseScope_new_def
      new_scope_def Let_def)

text \<open>
  C8 as stated fails. \<^verbatim>\<open>AddVars\<close> registers a name in any scope it is given. With one scope
  open and no name registered, push a second scope, register \<open>a\<close> in the first scope and
  pop: the pop erases the names of the popped scope only, and \<open>a\<close> stays registered, though
  no name was registered before the matching push.
\<close>

theorem matched_pop_counterexample:
  "name2value lower_scope = []
   \<and> AddVars ''a'' (ObjectRef 1) [0] (snd (PushScope BaseScope_new lower_scope))
       = Inr registered_below
   \<and> PopScope registered_below ()
       = Inr (BaseScope_new,
              \<lparr>scopes = [AddVar ''a'' BaseScope_new], name2value = [(''a'', ObjectRef 1)]\<rparr>,
              ())"
  by (simp add: lower_scope_def registered_below_def PushScope_def AddVars_def AddVar_at_def
      PopScope_def AddVar_def BaseScope_new_def new_scope_def Let_def)

text \<open>
  C8 (as amended). Take a sequence of operations made of matched pairs of a push and a pop,
  in which every push is of a scope as its constructor makes it, every name is registered
  in the scope that is at the top of the stack when it is registered, callbacks are attached
  to that scope, and callbacks return and leave the manager as it is. When such a sequence
  runs without failure, then after each matched pop the name table and the stack are the
  ones before the matching push: every name registered inside has been released. A pop on
  a stack that is not empty returns the scope at the top, runs the callbacks of that scope
  once each, in the order in which \<^verbatim>\<open>AddCallback\<close> has appended them, every one on the name
  table as it was before the pop, and only then removes the names of the scope from the
  table.
\<close>

theorem matched_pop_restores_names:
  fixes m :: "'w ScopeManagerNode"
  shows "(run_action (Block d acts) (m, w) = Inr (m', w')
          \<longrightarrow> name2value m' = name2value m \<and> scopes m' = scopes m)
       \<and> (scopes m \<noteq> []
          \<longrightarrow> PopScope m w =
                Inr (last (scopes m),
                     m\<lparr>scopes := butlast (scopes m),
                       name2value :=
                         filter (\<lambda>(name, v). name \<notin> set (vars (last (scopes m))))
                           (name2value m)\<rparr>,
                     foldl (\<lambda>w cb. cb (name2value m) w) w (callbacks (last (scopes m)))))
       \<and> callbacks (AddCallback cb scope) = callbacks scope @ [cb]"
proof -
  have A: "name2value m' = name2value m \<and> scopes m' = scopes m"
    if run: "run_action (Block d acts) (m, w) = Inr (m', w')"
  proof -
    from run obtain ma wa scope where
      r: "run_actions acts (snd (PushScope (new_scope d) m), w) = Inr (ma, wa)"
      and p: "PopScope ma wa = Inr (scope, m', w')"
      by (auto split: sum.splits)
    have "grows (snd (PushScope (new_scope d) m)) ma"
    proof (rule run_actions_grows [OF _ r])
      fix b mb wb mc wc
      assume "run_action b (mb, wb) = Inr (mc, wc)"
      then show "grows mb mc" by (rule run_action_grows)
    qed
    from pop_after_growth [OF this p] show ?thesis .
  qed
  have B: "PopScope m w =
                Inr (last (scopes m),
                     m\<lparr>scopes := butlast (scopes m),
                       name2value :=
                         filter (\<lambda>(name, v). name \<notin> set (vars (last (scopes m))))
                           (name2value m)\<rparr>,
                     foldl (\<lambda>w cb. cb (name2value m) w) w (callbacks (last (scopes m))))"
    if "scopes m \<noteq> []"
    using that by (simp add: PopScope_def Let_def erase_names_filter run_callbacks_foldl)
  have C: "callbacks (AddCallback cb scope) = callbacks scope @ [cb]"
    by (simp add: AddCallback_def)
  from A B C show ?thesis by blast
qed


theorem matched_pop_restores_names_witness:
  "run_action nested_block (no_scopes, [])
     = Inr (no_scopes, [(''inner'', 2), (''first'', 1), (''second'', 1)])
   \<and> scopes open_scope \<noteq> []
   \<and> PopScope open_scope []
       = Inr (last (scopes open_scope),
              \<lparr>scopes = [], name2value = [(''z'', ObjectRef 0)]\<rparr>,
              [(''first'', 2), (''second'', 2)])"
proof -
  have r: "\<exists>m'. run_action nested_block (no_scopes, [])
      = Inr (m', [(''inner'', 2), (''first'', 1), (''second'', 1)])"
    by (simp add: nested_block_def no_scopes_def PushScope_def PopScope_def AddVars_def
        AddVar_at_def AddVar_def AddCallback_def new_scope_def log_size_def Let_def)
  then obtain m' where
    m': "run_action nested_block (no_scopes, [])
      = Inr (m', [(''inner'', 2), (''first'', 1), (''second'', 1)])" by blast
  note inst = matched_pop_restores_names [where w = "[]" and cb = "log_size ''first''"
      and scope = "BaseScope_new"]
  have "name2value m' = name2value no_scopes \<and> scopes m' = scopes no_scopes"
    using m' inst [where m = no_scopes and d = "DataflowScopeNode []" and m' = m'
      and w' = "[(''inner'', 2), (''first'', 1), (''second'', 1)]"
      and acts = "[Register ''a'' (ObjectRef 1), Attach (log_size ''first''),
        Block BaseScopeNode [Register ''b'' (ObjectRef 2), Attach (log_size ''inner'')],
        Attach (log_size ''second'')]"]
    unfolding nested_block_def by blast
  then have e: "m' = no_scopes" by simp
  have s: "scopes open_scope \<noteq> []" by (simp add: open_scope_def)
  from inst [where m = open_scope] s
  have p: "PopScope open_scope []
       = Inr (last (scopes open_scope),
              open_scope\<lparr>scopes := butlast (scopes open_scope),
                name2value :=
                  filter (\<lambda>(name, v). name \<notin> set (vars (last (scopes open_scope))))
                    (name2value open_scope)\<rparr>,
              foldl (\<lambda>w cb. cb (name2value open_scope) w) []
                (callbacks (last (scopes open_scope))))"
    by simp
  show ?thesis
    using m' e s unfolding p by (simp add: open_scope_def log_size_def)
qed

end
